theory Spec2Isabelle
  imports Main
begin

unbundle bit_operations_syntax

section \<open>Go library functions used by the handler\<close>

text \<open>
  The package \<open>staticserve\<close> (file \<open>static_serve.go\<close>) calls a handful of functions of the
  Go standard library: \<open>strings\<close>, \<open>strconv\<close>, \<open>fmt\<close>, \<open>path/filepath\<close>, \<open>crypto/sha1\<close>,
  \<open>encoding/base64\<close> and \<open>time\<close>. They are written out here, on Unix, as executable
  functions, so that the handler can be evaluated on concrete requests. A Go \<open>string\<close> is
  a sequence of bytes, which is what \<^typ>\<open>string\<close> is; a \<open>byte\<close> is a \<^typ>\<open>char\<close>.
\<close>

type_synonym byte = char

subsection \<open>strings\<close>

text \<open>\<open>strings.HasPrefix(s, prefix)\<close>.\<close>

fun strings_HasPrefix :: "string \<Rightarrow> string \<Rightarrow> bool" where
  "strings_HasPrefix s [] = True"
| "strings_HasPrefix [] (p # ps) = False"
| "strings_HasPrefix (c # cs) (p # ps) = (c = p \<and> strings_HasPrefix cs ps)"

text \<open>
  \<open>strings.SplitN(s, sep, -1)\<close> for a separator of one byte: every substring between
  separators, so the empty string gives one empty substring.
\<close>

fun strings_Split :: "string \<Rightarrow> char \<Rightarrow> string list" where
  "strings_Split [] sep = [[]]"
| "strings_Split (c # cs) sep =
     (if c = sep then [] # strings_Split cs sep
      else (case strings_Split cs sep of
              [] \<Rightarrow> [[c]]
            | seg # segs \<Rightarrow> (c # seg) # segs))"

text \<open>\<open>strings.Join(elems, sep)\<close>.\<close>

fun strings_Join :: "string list \<Rightarrow> string \<Rightarrow> string" where
  "strings_Join [] sep = []"
| "strings_Join [e] sep = e"
| "strings_Join (e # es) sep = e @ sep @ strings_Join es sep"

subsection \<open>strconv and fmt\<close>

definition digit_char :: "nat \<Rightarrow> char" where
  "digit_char d = ''0123456789abcdef'' ! d"

function format_digits :: "int \<Rightarrow> int \<Rightarrow> string" where
  "format_digits base n =
     (if base < 2 \<or> n < base then [digit_char (nat n)]
      else format_digits base (n div base) @ [digit_char (nat (n mod base))])"
  by pat_completeness auto
termination
  by (relation "measure (\<lambda>(base, n). nat n)") (auto simp: int_div_less_self)

declare format_digits.simps [simp del]

text \<open>
  \<open>strconv.Itoa(i)\<close> and the verb \<open>%x\<close> of \<open>fmt.Sprintf\<close> on a signed integer: the digits
  of the absolute value in base 10 and 16 (lower case), after a minus sign when the
  value is negative.
\<close>

definition format_int :: "int \<Rightarrow> int \<Rightarrow> string" where
  "format_int base i =
     (if i < 0 then CHR ''-'' # format_digits base (- i) else format_digits base i)"

definition strconv_Itoa :: "int \<Rightarrow> string" where
  "strconv_Itoa i = format_int 10 i"

definition fmt_hex :: "int \<Rightarrow> string" where
  "fmt_hex i = format_int 16 i"

subsection \<open>crypto/sha1\<close>

text \<open>
  \<open>sha1.New()\<close>, \<open>Write(buf)\<close> and \<open>Sum(nil)\<close>: the SHA-1 digest (FIPS 180-4) of the bytes
  written, 20 bytes. The message is padded with the byte \<open>0x80\<close>, zero bytes up to 56
  modulo 64, and its length in bits (a \<open>uint64\<close>) as 8 bytes, big-endian; each block of
  64 bytes is read as 16 big-endian words, extended to 80 words over a window of 16, and
  run through 80 rounds. A \<open>uint32\<close> is an \<^typ>\<open>int\<close> from 0 to \<open>2^32 - 1\<close>; \<open>u32\<close> is
  the wrap-around of its arithmetic.
\<close>

definition u32 :: "int \<Rightarrow> int" where
  "u32 x = x mod 4294967296"

definition rotl32 :: "nat \<Rightarrow> int \<Rightarrow> int" where
  "rotl32 k x = u32 (push_bit k x) OR drop_bit (32 - k) x"

definition sha1_pad :: "byte list \<Rightarrow> byte list" where
  "sha1_pad msg =
     (let len = length msg;
          zeros = (if len mod 64 < 56 then 55 - len mod 64 else 119 - len mod 64);
          bits = push_bit 3 (int len) mod 18446744073709551616
      in msg @ [char_of (0x80 :: int)] @ replicate zeros (char_of (0 :: int))
         @ map (\<lambda>k. char_of (drop_bit k bits)) [56, 48, 40, 32, 24, 16, 8, 0])"

fun be_words :: "byte list \<Rightarrow> int list" where
  "be_words (b0 # b1 # b2 # b3 # rest) =
     (push_bit 24 (of_char b0) OR push_bit 16 (of_char b1) OR push_bit 8 (of_char b2) OR of_char b3)
       # be_words rest"
| "be_words _ = []"

fun sha1_extend :: "nat \<Rightarrow> int list \<Rightarrow> int list" where
  "sha1_extend 0 win = []"
| "sha1_extend (Suc k) win =
     (let wi = rotl32 1 (win ! 13 XOR win ! 8 XOR win ! 2 XOR win ! 0)
      in wi # sha1_extend k (tl win @ [wi]))"

type_synonym sha1_digest = "int \<times> int \<times> int \<times> int \<times> int"

definition sha1_round :: "nat \<Rightarrow> int \<Rightarrow> sha1_digest \<Rightarrow> sha1_digest" where
  "sha1_round i wi h =
     (case h of (a, b, c, d, e) \<Rightarrow>
        let (f, k) =
              (if i < 20 then ((b AND c) OR (u32 (NOT b) AND d), 0x5A827999)
               else if i < 40 then (b XOR c XOR d, 0x6ED9EBA1)
               else if i < 60 then (((b OR c) AND d) OR (b AND c), 0x8F1BBCDC)
               else (b XOR c XOR d, 0xCA62C1D6));
            t = u32 (rotl32 5 a + f + e + wi + k)
        in (t, a, rotl32 30 b, c, d))"

fun sha1_rounds :: "nat \<Rightarrow> int list \<Rightarrow> sha1_digest \<Rightarrow> sha1_digest" where
  "sha1_rounds i [] h = h"
| "sha1_rounds i (wi # ws) h = sha1_rounds (Suc i) ws (sha1_round i wi h)"

definition sha1_block :: "sha1_digest \<Rightarrow> byte list \<Rightarrow> sha1_digest" where
  "sha1_block h p =
     (case h of (h0, h1, h2, h3, h4) \<Rightarrow>
        (let w = be_words p
         in case sha1_rounds 0 (w @ sha1_extend 64 w) h of (a, b, c, d, e) \<Rightarrow>
           (u32 (h0 + a), u32 (h1 + b), u32 (h2 + c), u32 (h3 + d), u32 (h4 + e))))"

function sha1_blocks :: "sha1_digest \<Rightarrow> byte list \<Rightarrow> sha1_digest" where
  "sha1_blocks h p =
     (if length p < 64 then h else sha1_blocks (sha1_block h (take 64 p)) (drop 64 p))"
  by pat_completeness auto
termination
  by (relation "measure (\<lambda>(h, p). length p)") auto

declare sha1_blocks.simps [simp del]

definition sha1_init :: sha1_digest where
  "sha1_init = (0x67452301, 0xEFCDAB89, 0x98BADCFE, 0x10325476, 0xC3D2E1F0)"

definition sha1_Sum :: "byte list \<Rightarrow> byte list" where
  "sha1_Sum msg =
     (case sha1_blocks sha1_init (sha1_pad msg) of (h0, h1, h2, h3, h4) \<Rightarrow>
        concat (map (\<lambda>h. map (\<lambda>k. char_of (drop_bit k h)) [24, 16, 8, 0]) [h0, h1, h2, h3, h4]))"

subsection \<open>encoding/base64\<close>

text \<open>
  \<open>base64.URLEncoding.EncodeToString\<close>: the URL-safe alphabet of RFC 4648, with \<open>=\<close>
  padding.
\<close>

definition base64_char :: "nat \<Rightarrow> char" where
  "base64_char i =
     ''ABCDEFGHIJKLMNOPQRSTUVWXYZabcdefghijklmnopqrstuvwxyz0123456789-_'' ! i"

definition base64_sextet :: "int \<Rightarrow> nat \<Rightarrow> char" where
  "base64_sextet v k = base64_char (nat (drop_bit k v AND 0x3F))"

fun base64_URLEncoding :: "byte list \<Rightarrow> string" where
  "base64_URLEncoding [] = []"
| "base64_URLEncoding [b0] =
     (let v = push_bit 16 (of_char b0)
      in [base64_sextet v 18, base64_sextet v 12, CHR ''='', CHR ''=''])"
| "base64_URLEncoding [b0, b1] =
     (let v = push_bit 16 (of_char b0) OR push_bit 8 (of_char b1)
      in [base64_sextet v 18, base64_sextet v 12, base64_sextet v 6, CHR ''=''])"
| "base64_URLEncoding (b0 # b1 # b2 # rest) =
     (let v = push_bit 16 (of_char b0) OR push_bit 8 (of_char b1) OR of_char b2
      in [base64_sextet v 18, base64_sextet v 12, base64_sextet v 6, base64_sextet v 0]
         @ base64_URLEncoding rest)"

subsection \<open>path/filepath\<close>

text \<open>
  \<open>filepath.Clean\<close> on Unix. The source reads the path byte by byte into a buffer;
  \<open>dotdot\<close> is the length of the buffer below which a \<open>..\<close> element must not remove
  anything (the leading slash of a rooted path, or a leading \<open>../..\<close>). The remaining
  input is the last argument.
\<close>

function backtrack :: "nat \<Rightarrow> string \<Rightarrow> nat \<Rightarrow> nat" where
  "backtrack dotdot out w =
     (if w > dotdot \<and> out ! w \<noteq> CHR ''/'' then backtrack dotdot out (w - 1) else w)"
  by pat_completeness auto
termination
  by (relation "measure (\<lambda>(dotdot, out, w). w)") auto

declare backtrack.simps [simp del]

definition is_elem_end :: "string \<Rightarrow> bool" where
  "is_elem_end rest = (case rest of [] \<Rightarrow> True | c # _ \<Rightarrow> c = CHR ''/'')"

function clean_loop :: "bool \<Rightarrow> nat \<Rightarrow> string \<Rightarrow> string \<Rightarrow> string" where
  "clean_loop rooted dotdot out path =
     (case path of
        [] \<Rightarrow> out
      | c # cs \<Rightarrow>
          if c = CHR ''/'' then clean_loop rooted dotdot out cs
          else if c = CHR ''.'' \<and> is_elem_end cs then clean_loop rooted dotdot out cs
          else if c = CHR ''.'' \<and> take 1 cs = ''.'' \<and> is_elem_end (drop 1 cs) then
            (if length out > dotdot then
               clean_loop rooted dotdot
                 (take (backtrack dotdot out (length out - 1)) out) (drop 1 cs)
             else if \<not> rooted then
               clean_loop rooted (length out + (if out = [] then 2 else 3))
                 ((if out = [] then out else out @ ''/'') @ ''..'') (drop 1 cs)
             else clean_loop rooted dotdot out (drop 1 cs))
          else
            clean_loop rooted dotdot
              ((if (rooted \<and> length out \<noteq> 1) \<or> (\<not> rooted \<and> length out \<noteq> 0)
                then out @ ''/'' else out) @ takeWhile (\<lambda>x. x \<noteq> CHR ''/'') path)
              (dropWhile (\<lambda>x. x \<noteq> CHR ''/'') path))"
  by pat_completeness auto
termination
proof (relation "measure (\<lambda>(rooted, dotdot, out, path). length path)")
  fix path :: string and c cs
  assume "path = c # cs" "c \<noteq> CHR ''/''"
  then have "length (dropWhile (\<lambda>x. x \<noteq> CHR ''/'') path) \<le> length cs"
    by (simp add: length_dropWhile_le)
  then show "((rooted, dotdot,
      (if (rooted \<and> length out \<noteq> 1) \<or> (\<not> rooted \<and> length out \<noteq> 0)
       then out @ ''/'' else out) @ takeWhile (\<lambda>x. x \<noteq> CHR ''/'') path,
      dropWhile (\<lambda>x. x \<noteq> CHR ''/'') path), rooted, dotdot, out, path)
    \<in> measure (\<lambda>(rooted, dotdot, out, path). length path)"
    for rooted dotdot out
    using \<open>path = c # cs\<close> by simp
qed auto

declare clean_loop.simps [simp del]

definition filepath_Clean :: "string \<Rightarrow> string" where
  "filepath_Clean path =
     (case path of
        [] \<Rightarrow> ''.''
      | c # cs \<Rightarrow>
          let out = (if c = CHR ''/'' then clean_loop True 1 ''/'' cs
                     else clean_loop False 0 [] path)
          in if out = [] then ''.'' else out)"

text \<open>
  \<open>filepath.Join(elem...)\<close>: the elements from the first non-empty one on, joined with
  a slash and cleaned; the empty string when every element is empty.
\<close>

fun filepath_Join :: "string list \<Rightarrow> string" where
  "filepath_Join [] = []"
| "filepath_Join (e # es) =
     (if e \<noteq> [] then filepath_Clean (strings_Join (e # es) ''/'') else filepath_Join es)"

declare filepath_Join.simps [simp del]

subsection \<open>time\<close>

text \<open>
  \<open>t.UTC().Format("Mon, 02 Jan 2006 15:04:05 GMT")\<close> for a time \<open>t\<close> given by its Unix
  seconds: the day of the week, the day of the month on two digits, the month, the year
  on at least four digits, and the time of day, in the proleptic Gregorian calendar. The
  letters \<open>GMT\<close> of the layout are not a field of the layout and are copied.
\<close>

definition civil_from_days :: "int \<Rightarrow> int \<times> int \<times> int" where
  "civil_from_days days =
     (let z = days + 719468;
          era = z div 146097;
          doe = z - era * 146097;
          yoe = (doe - doe div 1460 + doe div 36524 - doe div 146096) div 365;
          doy = doe - (365 * yoe + yoe div 4 - yoe div 100);
          mp = (5 * doy + 2) div 153;
          d = doy - (153 * mp + 2) div 5 + 1;
          m = (if mp < 10 then mp + 3 else mp - 9);
          y = yoe + era * 400 + (if m \<le> 2 then 1 else 0)
      in (y, m, d))"

definition append_int :: "int \<Rightarrow> nat \<Rightarrow> string" where
  "append_int x width =
     (let digits = format_digits 10 \<bar>x\<bar>;
          padded = replicate (width - length digits) CHR ''0'' @ digits
      in if x < 0 then CHR ''-'' # padded else padded)"

definition http_date :: "int \<Rightarrow> string" where
  "http_date unix =
     (let days = unix div 86400;
          secs = unix mod 86400;
          (y, m, d) = civil_from_days days
      in [''Sun'', ''Mon'', ''Tue'', ''Wed'', ''Thu'', ''Fri'', ''Sat''] ! nat ((days + 4) mod 7)
         @ '', '' @ append_int d 2 @ '' ''
         @ [''Jan'', ''Feb'', ''Mar'', ''Apr'', ''May'', ''Jun'',
            ''Jul'', ''Aug'', ''Sep'', ''Oct'', ''Nov'', ''Dec''] ! nat (m - 1)
         @ '' '' @ append_int y 4 @ '' ''
         @ append_int (secs div 3600) 2 @ '':''
         @ append_int (secs mod 3600 div 60) 2 @ '':''
         @ append_int (secs mod 60) 2 @ '' GMT'')"

section \<open>Data model\<close>

text \<open>
  \<open>hes.Error\<close>, the structured error of the host framework: the fields this package
  sets and reads.
\<close>

record hes_error =
  StatusCode :: int
  Message :: string
  Category :: string

text \<open>
  A value of the interface type \<open>error\<close>. The handler does two things with one: the
  type assertion \<open>e.(*hes.Error)\<close>, which succeeds when \<open>as_hes\<close> is not \<open>None\<close>, and the
  call \<open>e.Error()\<close>, whose text is \<open>error_text\<close>. The value \<open>nil\<close> is \<open>None\<close> of
  \<open>go_error option\<close>.
\<close>

datatype go_error = GoError (as_hes: "hes_error option") (error_text: string)

text \<open>
  \<open>os.FileInfo\<close>, of which the handler reads \<open>Size()\<close> and \<open>ModTime()\<close>; the modification
  time is kept as its Unix seconds, which \<open>Unix()\<close> returns and which the layout of
  \<open>http_date\<close> depends on.
\<close>

record file_info =
  Size :: int
  ModTime :: int

text \<open>
  The interface \<open>StaticFile\<close>. An implementation may keep state and read the world, so
  every method takes the state \<open>'s\<close> of the backend and returns it. A byte slice (and a
  reader) may be \<open>nil\<close>, which is \<open>None\<close>; Go's pair of a value and an error stays a pair.
\<close>

record ('s, 'r) static_file =
  Exists :: "string \<Rightarrow> 's \<Rightarrow> bool \<times> 's"
  Get :: "string \<Rightarrow> 's \<Rightarrow> (byte list option \<times> go_error option) \<times> 's"
  Stat :: "string \<Rightarrow> 's \<Rightarrow> file_info option \<times> 's"
  NewReader :: "string \<Rightarrow> 's \<Rightarrow> ('r option \<times> go_error option) \<times> 's"

text \<open>
  \<open>elton.Context\<close>, as far as the handler uses it. Of the request: \<open>Committed\<close> (read by
  the framework's default skipper), the route parameters \<open>RawParams\<close> as pairs of key
  and value, and \<open>Request.URL\<close> with its \<open>Path\<close> and \<open>RawQuery\<close>. Of the response, what
  the handler does to it: \<open>Headers\<close> lists the calls of \<open>c.SetHeader(key, value)\<close> in the
  order they are made, \<open>ContentTypeByExt\<close> the calls of \<open>c.SetContentTypeByExt(file)\<close>,
  and \<open>BodyBuffer\<close> and \<open>Body\<close> hold what the handler assigns to these fields.
\<close>

record 'r Context =
  Committed :: bool
  RawParams :: "(string \<times> string) list"
  URL_Path :: string
  URL_RawQuery :: string
  Headers :: "(string \<times> string) list"
  ContentTypeByExt :: "string list"
  BodyBuffer :: "byte list option"
  Body :: "'r option option"

text \<open>
  \<open>Config\<close>. \<open>Header\<close> is a Go map: its pairs are listed in the order in which
  \<open>range\<close> happens to visit them. \<open>Skipper\<close> is \<open>None\<close> when the field is \<open>nil\<close>.
\<close>

record 'r config =
  Path :: string
  MaxAge :: int
  SMaxAge :: int
  Header :: "(string \<times> string) list"
  DenyQueryString :: bool
  DenyDot :: bool
  EnableStrongETag :: bool
  DisableETag :: bool
  DisableLastModified :: bool
  NotFoundNext :: bool
  Skipper :: "('r Context \<Rightarrow> bool) option"

text \<open>
  What one run of the handler works on: the context, the state of the backend, and the
  log of the calls made to the backend, the latest last.
\<close>

datatype call = CallExists string | CallGet string | CallStat string | CallNewReader string

record ('s, 'r) run =
  ctx :: "'r Context"
  store :: 's
  calls :: "call list"

text \<open>
  How the handler returns: with an error of its own (\<open>err = ...; return\<close>), or with
  \<open>return c.Next()\<close>, which runs the rest of the chain and returns its result. Both carry
  the state at that point.
\<close>

datatype 'a outcome = ReturnErr hes_error 'a | ReturnNext 'a

section \<open>The package staticserve\<close>

definition ErrCategory :: string where
  "ErrCategory = ''elton-static-serve''"

definition getStaticServeError :: "string \<Rightarrow> int \<Rightarrow> hes_error" where
  "getStaticServeError message statusCode =
     \<lparr>StatusCode = statusCode, Message = message, Category = ErrCategory\<rparr>"

definition ErrNotAllowQueryString :: hes_error where
  "ErrNotAllowQueryString = getStaticServeError ''static serve not allow query string'' 400"

definition ErrNotFound :: hes_error where
  "ErrNotFound = getStaticServeError ''static file not found'' 404"

definition ErrOutOfPath :: hes_error where
  "ErrOutOfPath = getStaticServeError ''out of path'' 400"

definition ErrNotAllowAccessDot :: hes_error where
  "ErrNotAllowAccessDot = getStaticServeError ''static server not allow with dot'' 400"

subsection \<open>The backend FS\<close>

text \<open>
  \<open>FS\<close> passes every call to the operating system. The file system it reads is the state
  of this backend: \<open>os_Stat\<close>, \<open>ioutil_ReadFile\<close> and \<open>os_Open\<close> give, for a path, what the
  call of that name returns. An error of the operating system has a kind, which
  \<open>os.IsNotExist\<close> looks at, and a text.
\<close>

datatype os_error_kind = NotExist | Permission | OtherKind

record os_error =
  err_kind :: os_error_kind
  err_text :: string

record 'r filesystem =
  os_Stat :: "string \<Rightarrow> file_info option \<times> os_error option"
  ioutil_ReadFile :: "string \<Rightarrow> byte list option \<times> os_error option"
  os_Open :: "string \<Rightarrow> 'r option \<times> os_error option"

definition os_IsNotExist :: "os_error option \<Rightarrow> bool" where
  "os_IsNotExist err = (case err of None \<Rightarrow> False | Some e \<Rightarrow> err_kind e = NotExist)"

definition as_error :: "os_error option \<Rightarrow> go_error option" where
  "as_error err = map_option (\<lambda>e. GoError None (err_text e)) err"

definition FS_Exists :: "string \<Rightarrow> 'r filesystem \<Rightarrow> bool \<times> 'r filesystem" where
  "FS_Exists file fs =
     (case os_Stat fs file of (_, err) \<Rightarrow>
        if os_IsNotExist err then (False, fs) else (True, fs))"

definition FS_Stat :: "string \<Rightarrow> 'r filesystem \<Rightarrow> file_info option \<times> 'r filesystem" where
  "FS_Stat file fs = (case os_Stat fs file of (info, _) \<Rightarrow> (info, fs))"

definition FS_Get ::
  "string \<Rightarrow> 'r filesystem \<Rightarrow> (byte list option \<times> go_error option) \<times> 'r filesystem" where
  "FS_Get file fs = (case ioutil_ReadFile fs file of (buf, err) \<Rightarrow> ((buf, as_error err), fs))"

definition FS_NewReader ::
  "string \<Rightarrow> 'r filesystem \<Rightarrow> ('r option \<times> go_error option) \<times> 'r filesystem" where
  "FS_NewReader file fs = (case os_Open fs file of (f, err) \<Rightarrow> ((f, as_error err), fs))"

definition FS :: "('r filesystem, 'r) static_file" where
  "FS = \<lparr>Exists = FS_Exists, Get = FS_Get, Stat = FS_Stat, NewReader = FS_NewReader\<rparr>"

subsection \<open>generateETag\<close>

definition len :: "'a list option \<Rightarrow> nat" where
  "len buf = (case buf of None \<Rightarrow> 0 | Some bs \<Rightarrow> length bs)"

definition bytes_of :: "byte list option \<Rightarrow> byte list" where
  "bytes_of buf = (case buf of None \<Rightarrow> [] | Some bs \<Rightarrow> bs)"

definition generateETag :: "byte list option \<Rightarrow> string" where
  \<open>generateETag buf =
     (let size = len buf
      in if size = 0 then ''"0-2jmj7l5rSw0yVb_vlWAYkK_YBwk="''
         else let hash = base64_URLEncoding (sha1_Sum (bytes_of buf))
              in ''"'' @ fmt_hex (int size) @ ''-'' @ hash @ ''"'')\<close>

subsection \<open>What the handler calls\<close>

text \<open>
  The calls of the four methods of the backend, each written to the log, and the calls
  on the context. \<open>elton.DefaultSkipper\<close> returns \<open>c.Committed\<close>;
  \<open>hes.NewWithErrorStatusCode(e, code)\<close> makes a structured error with that status and
  the text of \<open>e\<close> as its message.
\<close>

definition call_Exists :: "('s, 'r) static_file \<Rightarrow> string \<Rightarrow> ('s, 'r) run \<Rightarrow> bool \<times> ('s, 'r) run" where
  "call_Exists staticFile file x =
     (case Exists staticFile file (store x) of
        (r, s) \<Rightarrow> (r, x\<lparr>store := s, calls := calls x @ [CallExists file]\<rparr>))"

definition call_Get ::
  "('s, 'r) static_file \<Rightarrow> string \<Rightarrow> ('s, 'r) run
     \<Rightarrow> (byte list option \<times> go_error option) \<times> ('s, 'r) run" where
  "call_Get staticFile file x =
     (case Get staticFile file (store x) of
        (r, s) \<Rightarrow> (r, x\<lparr>store := s, calls := calls x @ [CallGet file]\<rparr>))"

definition call_Stat ::
  "('s, 'r) static_file \<Rightarrow> string \<Rightarrow> ('s, 'r) run \<Rightarrow> file_info option \<times> ('s, 'r) run" where
  "call_Stat staticFile file x =
     (case Stat staticFile file (store x) of
        (r, s) \<Rightarrow> (r, x\<lparr>store := s, calls := calls x @ [CallStat file]\<rparr>))"

definition call_NewReader ::
  "('s, 'r) static_file \<Rightarrow> string \<Rightarrow> ('s, 'r) run
     \<Rightarrow> ('r option \<times> go_error option) \<times> ('s, 'r) run" where
  "call_NewReader staticFile file x =
     (case NewReader staticFile file (store x) of
        (r, s) \<Rightarrow> (r, x\<lparr>store := s, calls := calls x @ [CallNewReader file]\<rparr>))"

definition HeaderETag :: string where
  "HeaderETag = ''ETag''"

definition HeaderLastModified :: string where
  "HeaderLastModified = ''Last-Modified''"

definition HeaderCacheControl :: string where
  "HeaderCacheControl = ''Cache-Control''"

definition SetHeader :: "string \<Rightarrow> string \<Rightarrow> ('s, 'r) run \<Rightarrow> ('s, 'r) run" where
  "SetHeader key v x = x\<lparr>ctx := (ctx x)\<lparr>Headers := Headers (ctx x) @ [(key, v)]\<rparr>\<rparr>"

definition SetContentTypeByExt :: "string \<Rightarrow> ('s, 'r) run \<Rightarrow> ('s, 'r) run" where
  "SetContentTypeByExt file x =
     x\<lparr>ctx := (ctx x)\<lparr>ContentTypeByExt := ContentTypeByExt (ctx x) @ [file]\<rparr>\<rparr>"

definition DefaultSkipper :: "'r Context \<Rightarrow> bool" where
  "DefaultSkipper c = Committed c"

definition hes_NewWithErrorStatusCode :: "go_error \<Rightarrow> int \<Rightarrow> hes_error" where
  "hes_NewWithErrorStatusCode e statusCode =
     \<lparr>StatusCode = statusCode, Message = error_text e, Category = []\<rparr>"

subsection \<open>New\<close>

text \<open>Lines 140 to 152: the value of the cache-control header, computed once.\<close>

definition cacheControl :: "'r config \<Rightarrow> string" where
  "cacheControl config =
     (let cacheArr = [''public''];
          cacheArr = (if MaxAge config > 0
                      then cacheArr @ [''max-age='' @ strconv_Itoa (MaxAge config)]
                      else cacheArr);
          cacheArr = (if SMaxAge config > 0
                      then cacheArr @ [''s-maxage='' @ strconv_Itoa (SMaxAge config)]
                      else cacheArr)
      in if length cacheArr > 1 then strings_Join cacheArr '', '' else [])"

text \<open>Lines 153 to 156.\<close>

definition skipper :: "'r config \<Rightarrow> 'r Context \<Rightarrow> bool" where
  "skipper config = (case Skipper config of None \<Rightarrow> DefaultSkipper | Some f \<Rightarrow> f)"

text \<open>
  Lines 161 to 172: the file asked for is the value of the first route parameter, or
  the path of the URL when there is none or it is empty.
\<close>

definition request_file :: "'r Context \<Rightarrow> string" where
  "request_file c =
     (let file = (case RawParams c of [] \<Rightarrow> [] | p # _ \<Rightarrow> snd p)
      in if file = [] then URL_Path c else file)"

text \<open>Lines 176 to 182: some item of the path, split at the slashes, begins with a dot.\<close>

definition dot_item :: "string \<Rightarrow> bool" where
  "dot_item item = (case item of [] \<Rightarrow> False | c # _ \<Rightarrow> c = CHR ''.'')"

definition has_dot_item :: "string \<Rightarrow> bool" where
  "has_dot_item file = list_ex dot_item (strings_Split file CHR ''/'')"

text \<open>
  Lines 207 to 221: the strong ETag needs the content. The result is the error to return,
  or \<open>fileBuf\<close>, which stays \<open>nil\<close> when nothing is read.
\<close>

definition read_content ::
  "('s, 'r) static_file \<Rightarrow> 'r config \<Rightarrow> string \<Rightarrow> ('s, 'r) run
     \<Rightarrow> (hes_error \<times> ('s, 'r) run) + (byte list option \<times> ('s, 'r) run)" where
  "read_content staticFile config file x =
     (if \<not> DisableETag config \<and> EnableStrongETag config then
        (case call_Get staticFile file x of
           ((buf, e), x') \<Rightarrow>
             (case e of
                Some e' \<Rightarrow>
                  (case as_hes e' of
                     Some he \<Rightarrow> Inl (he, x')
                   | None \<Rightarrow>
                       Inl ((hes_NewWithErrorStatusCode e' 500)\<lparr>Category := ErrCategory\<rparr>, x'))
              | None \<Rightarrow> Inr (buf, x')))
      else Inr (None, x))"

text \<open>Lines 223 to 234.\<close>

definition set_etag ::
  "('s, 'r) static_file \<Rightarrow> 'r config \<Rightarrow> string \<Rightarrow> byte list option \<Rightarrow> ('s, 'r) run
     \<Rightarrow> ('s, 'r) run" where
  \<open>set_etag staticFile config file fileBuf x =
     (if \<not> DisableETag config then
        (if EnableStrongETag config then SetHeader HeaderETag (generateETag fileBuf) x
         else (case call_Stat staticFile file x of
                 (fileInfo, x') \<Rightarrow>
                   (case fileInfo of
                      Some fi \<Rightarrow>
                        SetHeader HeaderETag
                          (''W/"'' @ fmt_hex (Size fi) @ ''-'' @ fmt_hex (ModTime fi) @ ''"'') x'
                    | None \<Rightarrow> x')))
      else x)\<close>

text \<open>Lines 236 to 242.\<close>

definition set_last_modified ::
  "('s, 'r) static_file \<Rightarrow> 'r config \<Rightarrow> string \<Rightarrow> ('s, 'r) run \<Rightarrow> ('s, 'r) run" where
  "set_last_modified staticFile config file x =
     (if \<not> DisableLastModified config then
        (case call_Stat staticFile file x of
           (fileInfo, x') \<Rightarrow>
             (case fileInfo of
                Some fi \<Rightarrow> SetHeader HeaderLastModified (http_date (ModTime fi)) x'
              | None \<Rightarrow> x'))
      else x)"

text \<open>Lines 244 to 249.\<close>

definition set_config_headers :: "'r config \<Rightarrow> ('s, 'r) run \<Rightarrow> ('s, 'r) run" where
  "set_config_headers config x = fold (\<lambda>(k, v). SetHeader k v) (Header config) x"

definition set_cache_control :: "string \<Rightarrow> ('s, 'r) run \<Rightarrow> ('s, 'r) run" where
  "set_cache_control cc x = (if cc \<noteq> [] then SetHeader HeaderCacheControl cc x else x)"

text \<open>Lines 250 to 260.\<close>

definition set_body ::
  "('s, 'r) static_file \<Rightarrow> string \<Rightarrow> byte list option \<Rightarrow> ('s, 'r) run
     \<Rightarrow> ('s, 'r) run outcome" where
  "set_body staticFile file fileBuf x =
     (case fileBuf of
        Some bs \<Rightarrow> ReturnNext (x\<lparr>ctx := (ctx x)\<lparr>BodyBuffer := Some bs\<rparr>\<rparr>)
      | None \<Rightarrow>
          (case call_NewReader staticFile file x of
             ((r, e), x') \<Rightarrow>
               (case e of
                  Some e' \<Rightarrow> ReturnErr (getStaticServeError (error_text e') 400) x'
                | None \<Rightarrow> ReturnNext (x'\<lparr>ctx := (ctx x')\<lparr>Body := Some r\<rparr>\<rparr>))))"

text \<open>Lines 197 to 260: the request has passed the checks and \<open>file\<close> is the joined path.\<close>

definition serve ::
  "('s, 'r) static_file \<Rightarrow> 'r config \<Rightarrow> string \<Rightarrow> string \<Rightarrow> ('s, 'r) run
     \<Rightarrow> ('s, 'r) run outcome" where
  "serve staticFile config cc file x =
     (case call_Exists staticFile file x of
        (exists, x1) \<Rightarrow>
          if \<not> exists then
            (if NotFoundNext config then ReturnNext x1 else ReturnErr ErrNotFound x1)
          else
            (case read_content staticFile config file (SetContentTypeByExt file x1) of
               Inl (he, x2) \<Rightarrow> ReturnErr he x2
             | Inr (fileBuf, x2) \<Rightarrow>
                 set_body staticFile file fileBuf
                   (set_cache_control cc
                     (set_config_headers config
                       (set_last_modified staticFile config file
                         (set_etag staticFile config file fileBuf x2))))))"

text \<open>Lines 139 to 196, and the handler as a whole.\<close>

definition New ::
  "('s, 'r) static_file \<Rightarrow> 'r config \<Rightarrow> ('s, 'r) run \<Rightarrow> ('s, 'r) run outcome" where
  "New staticFile config =
     (let cc = cacheControl config
      in (\<lambda>x.
        if skipper config (ctx x) then ReturnNext x
        else
          let file = request_file (ctx x)
          in if DenyDot config \<and> has_dot_item file then ReturnErr ErrNotAllowAccessDot x
             else
               let file = filepath_Join [Path config, file]
               in if \<not> strings_HasPrefix file (Path config) then ReturnErr ErrOutOfPath x
                  else if DenyQueryString config \<and> URL_RawQuery (ctx x) \<noteq> [] then
                    ReturnErr ErrNotAllowQueryString x
                  else serve staticFile config cc file x))"

definition NewDefault :: "'r config \<Rightarrow> ('r filesystem, 'r) run \<Rightarrow> ('r filesystem, 'r) run outcome" where
  "NewDefault config = New FS config"

subsection \<open>Reading an outcome\<close>

text \<open>
  \<open>final\<close> is the state in which the handler returns. \<open>returned_error\<close> is the error the
  handler makes itself, at \<open>err = ...; return\<close>; it is \<open>None\<close> when the handler hands over
  to the continuation, and says nothing then of what the handler returns.
  \<open>invokes_next\<close> tells that it hands over.
\<close>

definition final :: "'a outcome \<Rightarrow> 'a" where
  "final r = (case r of ReturnErr _ x \<Rightarrow> x | ReturnNext x \<Rightarrow> x)"

definition returned_error :: "'a outcome \<Rightarrow> hes_error option" where
  "returned_error r = (case r of ReturnErr he _ \<Rightarrow> Some he | ReturnNext _ \<Rightarrow> None)"

definition invokes_next :: "'a outcome \<Rightarrow> bool" where
  "invokes_next r = (case r of ReturnErr _ _ \<Rightarrow> False | ReturnNext _ \<Rightarrow> True)"

text \<open>
  The value of type \<open>error\<close> that the handler returns, given the continuation: what
  \<open>c.Next()\<close> returns in the state in which it is called, \<open>None\<close> for \<open>nil\<close>. At
  \<open>err = ...; return\<close> the handler returns its own error (\<open>Inl\<close>); at \<open>return c.Next()\<close>
  (lines 159, 200 and 260) it returns what the continuation returns, an error of the
  rest of the chain (\<open>Inr\<close>) or \<open>nil\<close>.
\<close>

definition handler_returns ::
  "('a \<Rightarrow> go_error option) \<Rightarrow> 'a outcome \<Rightarrow> (hes_error + go_error) option" where
  "handler_returns continuation r =
     (case r of
        ReturnErr he _ \<Rightarrow> Some (Inl he)
      | ReturnNext x \<Rightarrow> map_option Inr (continuation x))"

section \<open>Example requests\<close>

text \<open>
  A configuration as in the example of the repository; a file system with one file,
  \<open>/var/www/index.html\<close>, of 120 bytes, last modified at 1700000000, and one path that
  cannot be read; a backend that, like the packaged assets of the README, has no \<open>Stat\<close>,
  and whose \<open>Get\<close> returns what it is given; and a request for a path, with a query.
\<close>

definition example_config :: "string config" where
  "example_config =
     \<lparr>Path = ''/var/www'', MaxAge = 31536000, SMaxAge = 3600, Header = [],
      DenyQueryString = False, DenyDot = False, EnableStrongETag = False,
      DisableETag = False, DisableLastModified = False, NotFoundNext = False,
      Skipper = None\<rparr>"

definition example_fs :: "string filesystem" where
  "example_fs =
     \<lparr>os_Stat = (\<lambda>file.
        if file = ''/var/www/index.html'' then (Some \<lparr>Size = 120, ModTime = 1700000000\<rparr>, None)
        else if file = ''/var/www/private'' then
          (None, Some \<lparr>err_kind = Permission, err_text = ''permission denied''\<rparr>)
        else (None, Some \<lparr>err_kind = NotExist, err_text = ''no such file or directory''\<rparr>)),
      ioutil_ReadFile = (\<lambda>file.
        if file = ''/var/www/index.html'' then (Some (replicate 120 CHR ''x''), None)
        else if file = ''/var/www/private'' then
          (None, Some \<lparr>err_kind = Permission, err_text = ''permission denied''\<rparr>)
        else (None, Some \<lparr>err_kind = NotExist, err_text = ''no such file or directory''\<rparr>)),
      os_Open = (\<lambda>file.
        if file = ''/var/www/index.html'' then (Some ''index.html'', None)
        else if file = ''/var/www/private'' then
          (None, Some \<lparr>err_kind = Permission, err_text = ''permission denied''\<rparr>)
        else (None, Some \<lparr>err_kind = NotExist, err_text = ''no such file or directory''\<rparr>))\<rparr>"

definition example_assets ::
  "(byte list option \<times> go_error option) \<Rightarrow> (nat, string) static_file" where
  "example_assets content =
     \<lparr>Exists = (\<lambda>file n. (True, Suc n)),
      Get = (\<lambda>file n. (content, Suc n)),
      Stat = (\<lambda>file n. (None, Suc n)),
      NewReader = (\<lambda>file n. ((Some ''asset'', None), Suc n))\<rparr>"

definition example_request :: "string \<Rightarrow> string \<Rightarrow> 's \<Rightarrow> ('s, string) run" where
  "example_request file query s =
     \<lparr>ctx = \<lparr>Committed = False, RawParams = [(''file'', file)], URL_Path = file,
              URL_RawQuery = query, Headers = [], ContentTypeByExt = [],
              BodyBuffer = None, Body = None\<rparr>,
      store = s, calls = []\<rparr>"

text \<open>
  Two continuations: a chain that ends well, and one in which a later handler fails.
\<close>

definition example_chain_ok :: "'a \<Rightarrow> go_error option" where
  "example_chain_ok x = None"

definition example_chain_fails :: "'a \<Rightarrow> go_error option" where
  "example_chain_fails x = Some (GoError None ''no handler for this route'')"

section \<open>The strong ETag\<close>

lemma fmt_hex_0: "fmt_hex 0 = ''0''"
  by (simp add: fmt_hex_def format_int_def format_digits.simps digit_char_def)

lemma sha1_of_nothing: "base64_URLEncoding (sha1_Sum []) = ''2jmj7l5rSw0yVb_vlWAYkK_YBwk=''"
  by code_simp

lemma len_bytes_of: "len buf = length (bytes_of buf)"
  by (simp add: len_def bytes_of_def split: option.splits)

lemma generateETag_formula:
  \<open>generateETag buf =
     ''"'' @ fmt_hex (int (length (bytes_of buf))) @ ''-''
       @ base64_URLEncoding (sha1_Sum (bytes_of buf)) @ ''"''\<close>
proof (cases "bytes_of buf = []")
  case True
  then show ?thesis
    by (simp add: generateETag_def len_bytes_of fmt_hex_0 sha1_of_nothing)
next
  case False
  then show ?thesis
    by (simp add: generateETag_def len_bytes_of Let_def)
qed

text \<open>
  C7. The strong ETag is a function of the bytes alone: two slices with the same bytes,
  a \<open>nil\<close> slice and an empty one among them, get the same ETag. For no bytes it is the
  fixed string \<open>"0-2jmj7l5rSw0yVb_vlWAYkK_YBwk="\<close>; for \<open>n > 0\<close> bytes it is \<open>n\<close> in
  hexadecimal, a dash and the URL-safe base64 of the SHA-1 digest of the bytes, between
  double quotes; and the fixed string is what this formula gives for no bytes.
\<close>

theorem generateETag_of_content:
  \<open>(bytes_of a = bytes_of b \<longrightarrow> generateETag a = generateETag b)
   \<and> (len buf = 0 \<longrightarrow> generateETag buf = ''"0-2jmj7l5rSw0yVb_vlWAYkK_YBwk="'')
   \<and> generateETag buf =
        ''"'' @ fmt_hex (int (len buf)) @ ''-''
          @ base64_URLEncoding (sha1_Sum (bytes_of buf)) @ ''"''\<close>
proof -
  have "bytes_of a = bytes_of b \<longrightarrow> generateETag a = generateETag b"
    by (simp add: generateETag_formula)
  moreover have \<open>len buf = 0 \<longrightarrow> generateETag buf = ''"0-2jmj7l5rSw0yVb_vlWAYkK_YBwk="''\<close>
    by (simp add: generateETag_def)
  moreover have \<open>generateETag buf =
      ''"'' @ fmt_hex (int (len buf)) @ ''-''
        @ base64_URLEncoding (sha1_Sum (bytes_of buf)) @ ''"''\<close>
    by (simp only: generateETag_formula len_bytes_of)
  ultimately show ?thesis
    by blast
qed

theorem generateETag_of_content_witness:
  \<open>bytes_of None = bytes_of (Some []) \<and> generateETag None = generateETag (Some [])
   \<and> len (None :: byte list option) = 0
   \<and> generateETag None = ''"0-2jmj7l5rSw0yVb_vlWAYkK_YBwk="''
   \<and> generateETag (Some ''abc'') = ''"3-qZk-NkcGgWq6PiVxeFDCbJzQ2J0="''\<close>
proof -
  have same: "bytes_of None = bytes_of (Some [])"
    by (simp add: bytes_of_def)
  have none: "len (None :: byte list option) = 0"
    by (simp add: len_def)
  have digest: \<open>''"'' @ fmt_hex (int (len (Some ''abc''))) @ ''-''
      @ base64_URLEncoding (sha1_Sum (bytes_of (Some ''abc''))) @ ''"''
      = ''"3-qZk-NkcGgWq6PiVxeFDCbJzQ2J0="''\<close>
    by code_simp
  from generateETag_of_content [of None "Some []" None] same none
  have "generateETag None = generateETag (Some [])"
    and \<open>generateETag None = ''"0-2jmj7l5rSw0yVb_vlWAYkK_YBwk="''\<close>
    by blast+
  moreover from generateETag_of_content [of None None "Some ''abc''"] digest
  have \<open>generateETag (Some ''abc'') = ''"3-qZk-NkcGgWq6PiVxeFDCbJzQ2J0="''\<close>
    by (simp only:)
  ultimately show ?thesis
    using same none by blast
qed

section \<open>The checks before the backend\<close>

lemma New_serve:
  assumes "\<not> skipper config (ctx x)"
    and "\<not> (DenyDot config \<and> has_dot_item (request_file (ctx x)))"
    and "strings_HasPrefix (filepath_Join [Path config, request_file (ctx x)]) (Path config)"
    and "\<not> (DenyQueryString config \<and> URL_RawQuery (ctx x) \<noteq> [])"
  shows "New staticFile config x =
    serve staticFile config (cacheControl config)
      (filepath_Join [Path config, request_file (ctx x)]) x"
  using assms by (auto simp: New_def Let_def)

lemma dot_item_iff: "dot_item item \<longleftrightarrow> item \<noteq> [] \<and> hd item = CHR ''.''"
  by (cases item) (simp_all add: dot_item_def)

lemma has_dot_item_iff:
  "has_dot_item file \<longleftrightarrow>
     (\<exists>item \<in> set (strings_Split file CHR ''/''). item \<noteq> [] \<and> hd item = CHR ''.'')"
  by (simp add: has_dot_item_def list_ex_iff dot_item_iff)

lemma dotdot_is_dot_item:
  "''..'' \<in> set (strings_Split file CHR ''/'') \<Longrightarrow> has_dot_item file"
  by (auto simp: has_dot_item_iff)

text \<open>
  C1, as amended. A request that is not skipped and whose path, joined with the root and
  cleaned, does not start with the root string is refused without any call to the
  backend: with \<open>OutOfPath\<close> (400) when \<open>DenyDot\<close> is off or no item of the path begins
  with a dot, and with \<open>NotAllowAccessDot\<close> (400) when \<open>DenyDot\<close> is on and some item
  does, as every path with an item \<open>..\<close> has.
\<close>

theorem New_out_of_path:
  assumes "\<not> skipper config (ctx x)"
    and "\<not> strings_HasPrefix (filepath_Join [Path config, request_file (ctx x)]) (Path config)"
  shows "New staticFile config x =
           (if DenyDot config \<and> has_dot_item (request_file (ctx x))
            then ReturnErr ErrNotAllowAccessDot x else ReturnErr ErrOutOfPath x)
         \<and> StatusCode ErrOutOfPath = 400 \<and> StatusCode ErrNotAllowAccessDot = 400
         \<and> calls (final (New staticFile config x)) = calls x
         \<and> store (final (New staticFile config x)) = store x
         \<and> (''..'' \<in> set (strings_Split (request_file (ctx x)) CHR ''/'')
              \<longrightarrow> has_dot_item (request_file (ctx x)))"
  using assms
  by (simp add: New_def Let_def final_def ErrOutOfPath_def ErrNotAllowAccessDot_def
      getStaticServeError_def dotdot_is_dot_item)

text \<open>
  The claim as it was stated fails with \<open>DenyDot\<close> on: the request for
  \<open>/../etc/passwd\<close> under \<open>/var/www\<close> has an item \<open>..\<close> and leaves the root, and the
  handler answers \<open>NotAllowAccessDot\<close>, not \<open>OutOfPath\<close>.
\<close>

theorem New_out_of_path_counterexample:
  "''..'' \<in> set (strings_Split ''/../etc/passwd'' CHR ''/'')
   \<and> \<not> strings_HasPrefix (filepath_Join [''/var/www'', ''/../etc/passwd'']) ''/var/www''
   \<and> \<not> skipper (example_config\<lparr>DenyDot := True\<rparr>)
          (ctx (example_request ''/../etc/passwd'' [] example_fs))
   \<and> request_file (ctx (example_request ''/../etc/passwd'' [] example_fs)) = ''/../etc/passwd''
   \<and> Path (example_config\<lparr>DenyDot := True\<rparr>) = ''/var/www''
   \<and> returned_error (New FS (example_config\<lparr>DenyDot := True\<rparr>)
         (example_request ''/../etc/passwd'' [] example_fs)) = Some ErrNotAllowAccessDot
   \<and> returned_error (New FS (example_config\<lparr>DenyDot := True\<rparr>)
         (example_request ''/../etc/passwd'' [] example_fs)) \<noteq> Some ErrOutOfPath"
  by code_simp

theorem New_out_of_path_witness:
  "\<not> skipper example_config (ctx (example_request ''/../etc/passwd'' [] example_fs))
   \<and> \<not> strings_HasPrefix
         (filepath_Join [Path example_config,
            request_file (ctx (example_request ''/../etc/passwd'' [] example_fs))])
         (Path example_config)
   \<and> returned_error (New FS example_config (example_request ''/../etc/passwd'' [] example_fs))
       = Some ErrOutOfPath
   \<and> calls (final (New FS example_config (example_request ''/../etc/passwd'' [] example_fs))) = []"
proof -
  let ?x = "example_request ''/../etc/passwd'' [] example_fs"
  have h1: "\<not> skipper example_config (ctx ?x)"
    by code_simp
  have h2: "\<not> strings_HasPrefix
      (filepath_Join [Path example_config, request_file (ctx ?x)]) (Path example_config)"
    by code_simp
  have off: "\<not> DenyDot example_config"
    by (simp add: example_config_def)
  from New_out_of_path [OF h1 h2, of FS] off
  have "New FS example_config ?x = ReturnErr ErrOutOfPath ?x"
    and "calls (final (New FS example_config ?x)) = calls ?x"
    by (simp_all add: final_def)
  then show ?thesis
    using h1 h2 by (simp add: returned_error_def example_request_def)
qed

text \<open>
  C4. With \<open>DenyDot\<close> on, a request (not skipped) for a path in which some non-empty
  item between slashes begins with a dot fails with \<open>NotAllowAccessDot\<close> (400), and no
  method of the backend, \<open>Exists\<close> included, has been called.
\<close>

theorem New_deny_dot:
  assumes "\<not> skipper config (ctx x)"
    and "DenyDot config"
    and "\<exists>item \<in> set (strings_Split (request_file (ctx x)) CHR ''/'').
           item \<noteq> [] \<and> hd item = CHR ''.''"
  shows "New staticFile config x = ReturnErr ErrNotAllowAccessDot x
         \<and> StatusCode ErrNotAllowAccessDot = 400
         \<and> calls (final (New staticFile config x)) = calls x
         \<and> store (final (New staticFile config x)) = store x"
  using assms
  by (simp add: New_def Let_def final_def ErrNotAllowAccessDot_def
      getStaticServeError_def has_dot_item_iff)

theorem New_deny_dot_witness:
  "\<not> skipper (example_config\<lparr>DenyDot := True\<rparr>) (ctx (example_request ''/.git/config'' [] example_fs))
   \<and> DenyDot (example_config\<lparr>DenyDot := True\<rparr>)
   \<and> (\<exists>item \<in> set (strings_Split
          (request_file (ctx (example_request ''/.git/config'' [] example_fs))) CHR ''/'').
          item \<noteq> [] \<and> hd item = CHR ''.'')
   \<and> returned_error (New FS (example_config\<lparr>DenyDot := True\<rparr>)
         (example_request ''/.git/config'' [] example_fs)) = Some ErrNotAllowAccessDot
   \<and> calls (final (New FS (example_config\<lparr>DenyDot := True\<rparr>)
         (example_request ''/.git/config'' [] example_fs))) = []"
proof -
  let ?c = "example_config\<lparr>DenyDot := True\<rparr>"
  let ?x = "example_request ''/.git/config'' [] example_fs"
  have h1: "\<not> skipper ?c (ctx ?x)"
    by code_simp
  have h2: "DenyDot ?c"
    by simp
  have h3: "\<exists>item \<in> set (strings_Split (request_file (ctx ?x)) CHR ''/'').
      item \<noteq> [] \<and> hd item = CHR ''.''"
    by code_simp
  from New_deny_dot [OF h1 h2 h3, of FS]
  have "New FS ?c ?x = ReturnErr ErrNotAllowAccessDot ?x"
    and "calls (final (New FS ?c ?x)) = calls ?x"
    by (simp_all add: final_def)
  then show ?thesis
    using h1 h2 h3 by (simp add: returned_error_def example_request_def)
qed

text \<open>
  C5, as amended. A request reaches the existence check and \<open>Exists\<close> returns false for
  the joined path. Without \<open>NotFoundNext\<close> the handler returns \<open>NotFound\<close> (404) and does
  not call the continuation. With \<open>NotFoundNext\<close> it calls the continuation and returns
  what the continuation returns: no error of its own, and no error at all exactly when
  the continuation returns none. Either way the context is as it was, so no header has
  been set, and \<open>Exists\<close> is the only call to the backend.
\<close>

theorem New_not_found:
  assumes "\<not> skipper config (ctx x)"
    and "\<not> (DenyDot config \<and> has_dot_item (request_file (ctx x)))"
    and "strings_HasPrefix (filepath_Join [Path config, request_file (ctx x)]) (Path config)"
    and "\<not> (DenyQueryString config \<and> URL_RawQuery (ctx x) \<noteq> [])"
    and "\<not> fst (Exists staticFile (filepath_Join [Path config, request_file (ctx x)]) (store x))"
  shows "(\<not> NotFoundNext config \<longrightarrow>
            returned_error (New staticFile config x) = Some ErrNotFound
            \<and> handler_returns continuation (New staticFile config x) = Some (Inl ErrNotFound)
            \<and> StatusCode ErrNotFound = 404
            \<and> \<not> invokes_next (New staticFile config x))
         \<and> (NotFoundNext config \<longrightarrow>
            invokes_next (New staticFile config x)
            \<and> handler_returns continuation (New staticFile config x) =
                map_option Inr (continuation (final (New staticFile config x)))
            \<and> (handler_returns continuation (New staticFile config x) = None
                  \<longleftrightarrow> continuation (final (New staticFile config x)) = None))
         \<and> ctx (final (New staticFile config x)) = ctx x
         \<and> calls (final (New staticFile config x)) =
             calls x @ [CallExists (filepath_Join [Path config, request_file (ctx x)])]"
  using assms
  by (simp add: New_serve serve_def call_Exists_def case_prod_beta final_def
      returned_error_def handler_returns_def invokes_next_def ErrNotFound_def
      getStaticServeError_def)

text \<open>
  The claim as it was stated has the handler return no error with \<open>NotFoundNext\<close>. For
  the missing file \<open>/missing.css\<close> and a chain in which a later handler fails, the
  handler calls the continuation and returns the error of that handler.
\<close>

theorem New_not_found_counterexample:
  "NotFoundNext (example_config\<lparr>NotFoundNext := True\<rparr>)
   \<and> \<not> skipper (example_config\<lparr>NotFoundNext := True\<rparr>)
         (ctx (example_request ''/missing.css'' [] example_fs))
   \<and> \<not> fst (Exists FS ''/var/www/missing.css''
         (store (example_request ''/missing.css'' [] example_fs)))
   \<and> invokes_next (New FS (example_config\<lparr>NotFoundNext := True\<rparr>)
         (example_request ''/missing.css'' [] example_fs))
   \<and> calls (final (New FS (example_config\<lparr>NotFoundNext := True\<rparr>)
         (example_request ''/missing.css'' [] example_fs)))
       = [CallExists ''/var/www/missing.css'']
   \<and> handler_returns example_chain_fails
         (New FS (example_config\<lparr>NotFoundNext := True\<rparr>)
            (example_request ''/missing.css'' [] example_fs))
       = Some (Inr (GoError None ''no handler for this route''))
   \<and> handler_returns example_chain_fails
         (New FS (example_config\<lparr>NotFoundNext := True\<rparr>)
            (example_request ''/missing.css'' [] example_fs))
       \<noteq> None"
  by code_simp

theorem New_not_found_witness:
  "\<not> skipper example_config (ctx (example_request ''/missing.css'' [] example_fs))
   \<and> \<not> fst (Exists FS
         (filepath_Join [Path example_config,
            request_file (ctx (example_request ''/missing.css'' [] example_fs))])
         (store (example_request ''/missing.css'' [] example_fs)))
   \<and> \<not> NotFoundNext example_config
   \<and> returned_error (New FS example_config (example_request ''/missing.css'' [] example_fs))
       = Some ErrNotFound
   \<and> handler_returns example_chain_ok
         (New FS example_config (example_request ''/missing.css'' [] example_fs))
       = Some (Inl ErrNotFound)
   \<and> \<not> invokes_next (New FS example_config (example_request ''/missing.css'' [] example_fs))
   \<and> NotFoundNext (example_config\<lparr>NotFoundNext := True\<rparr>)
   \<and> invokes_next (New FS (example_config\<lparr>NotFoundNext := True\<rparr>)
         (example_request ''/missing.css'' [] example_fs))
   \<and> example_chain_ok (final (New FS (example_config\<lparr>NotFoundNext := True\<rparr>)
         (example_request ''/missing.css'' [] example_fs))) = None
   \<and> handler_returns example_chain_ok
         (New FS (example_config\<lparr>NotFoundNext := True\<rparr>)
            (example_request ''/missing.css'' [] example_fs)) = None
   \<and> handler_returns example_chain_fails
         (New FS (example_config\<lparr>NotFoundNext := True\<rparr>)
            (example_request ''/missing.css'' [] example_fs))
       = Some (Inr (GoError None ''no handler for this route''))
   \<and> Headers (ctx (final (New FS (example_config\<lparr>NotFoundNext := True\<rparr>)
         (example_request ''/missing.css'' [] example_fs)))) = []"
proof -
  let ?x = "example_request ''/missing.css'' [] example_fs"
  let ?c = "example_config"
  let ?d = "example_config\<lparr>NotFoundNext := True\<rparr>"
  have c1: "\<not> skipper ?c (ctx ?x)"
    by code_simp
  have c2: "\<not> (DenyDot ?c \<and> has_dot_item (request_file (ctx ?x)))"
    by code_simp
  have c3: "strings_HasPrefix (filepath_Join [Path ?c, request_file (ctx ?x)]) (Path ?c)"
    by code_simp
  have c4: "\<not> (DenyQueryString ?c \<and> URL_RawQuery (ctx ?x) \<noteq> [])"
    by code_simp
  have c5: "\<not> fst (Exists FS (filepath_Join [Path ?c, request_file (ctx ?x)]) (store ?x))"
    by code_simp
  have d1: "\<not> skipper ?d (ctx ?x)"
    by code_simp
  have d2: "\<not> (DenyDot ?d \<and> has_dot_item (request_file (ctx ?x)))"
    by code_simp
  have d3: "strings_HasPrefix (filepath_Join [Path ?d, request_file (ctx ?x)]) (Path ?d)"
    by code_simp
  have d4: "\<not> (DenyQueryString ?d \<and> URL_RawQuery (ctx ?x) \<noteq> [])"
    by code_simp
  have d5: "\<not> fst (Exists FS (filepath_Join [Path ?d, request_file (ctx ?x)]) (store ?x))"
    by code_simp
  have off: "\<not> NotFoundNext ?c" and on: "NotFoundNext ?d"
    by (simp_all add: example_config_def)
  have empty: "Headers (ctx ?x) = []"
    by (simp add: example_request_def)
  have ok: "example_chain_ok (final (New FS ?d ?x)) = None"
    by (simp add: example_chain_ok_def)
  have fails: "example_chain_fails (final (New FS ?d ?x))
      = Some (GoError None ''no handler for this route'')"
    by (simp add: example_chain_fails_def)
  from New_not_found [OF c1 c2 c3 c4 c5, of example_chain_ok] off
  have "returned_error (New FS ?c ?x) = Some ErrNotFound
      \<and> handler_returns example_chain_ok (New FS ?c ?x) = Some (Inl ErrNotFound)
      \<and> \<not> invokes_next (New FS ?c ?x)"
    by blast
  moreover from New_not_found [OF d1 d2 d3 d4 d5, of example_chain_ok] on ok
  have "invokes_next (New FS ?d ?x) \<and> handler_returns example_chain_ok (New FS ?d ?x) = None
      \<and> ctx (final (New FS ?d ?x)) = ctx ?x"
    by blast
  moreover from New_not_found [OF d1 d2 d3 d4 d5, of example_chain_fails] on
  have "handler_returns example_chain_fails (New FS ?d ?x)
      = map_option Inr (example_chain_fails (final (New FS ?d ?x)))"
    by blast
  then have "handler_returns example_chain_fails (New FS ?d ?x)
      = Some (Inr (GoError None ''no handler for this route''))"
    by (simp add: fails)
  ultimately show ?thesis
    using c1 c5 off on empty ok by simp
qed

text \<open>
  C6. In strong-ETag mode (\<open>DisableETag\<close> off, \<open>EnableStrongETag\<close> on) the file exists and
  \<open>Get\<close> returns an error. When the error is not a \<open>*hes.Error\<close> the handler returns an
  error with status 500, the text of the error as its message and the category of this
  package; when it is one, the handler returns it as it is. The continuation is not
  called and no header has been set.
\<close>

theorem New_read_failure:
  assumes "\<not> skipper config (ctx x)"
    and "\<not> (DenyDot config \<and> has_dot_item (request_file (ctx x)))"
    and "strings_HasPrefix (filepath_Join [Path config, request_file (ctx x)]) (Path config)"
    and "\<not> (DenyQueryString config \<and> URL_RawQuery (ctx x) \<noteq> [])"
    and "\<not> DisableETag config" and "EnableStrongETag config"
    and "Exists staticFile (filepath_Join [Path config, request_file (ctx x)]) (store x) = (True, s1)"
    and "Get staticFile (filepath_Join [Path config, request_file (ctx x)]) s1 = ((buf, Some e), s2)"
  shows "(as_hes e = None \<longrightarrow>
            returned_error (New staticFile config x) =
              Some \<lparr>StatusCode = 500, Message = error_text e, Category = ''elton-static-serve''\<rparr>)
         \<and> (\<forall>he. as_hes e = Some he \<longrightarrow> returned_error (New staticFile config x) = Some he)
         \<and> \<not> invokes_next (New staticFile config x)
         \<and> Headers (ctx (final (New staticFile config x))) = Headers (ctx x)"
  using assms
  by (simp add: New_serve serve_def call_Exists_def read_content_def call_Get_def
      SetContentTypeByExt_def hes_NewWithErrorStatusCode_def ErrCategory_def
      final_def returned_error_def invokes_next_def split: option.splits)

theorem New_read_failure_witness:
  "Exists (example_assets (None, Some (GoError None ''unexpected EOF'')))
      (filepath_Join [Path (example_config\<lparr>EnableStrongETag := True\<rparr>),
         request_file (ctx (example_request ''/app.js'' [] (0::nat)))])
      (store (example_request ''/app.js'' [] (0::nat))) = (True, 1)
   \<and> Get (example_assets (None, Some (GoError None ''unexpected EOF'')))
      (filepath_Join [Path (example_config\<lparr>EnableStrongETag := True\<rparr>),
         request_file (ctx (example_request ''/app.js'' [] (0::nat)))]) 1
       = ((None, Some (GoError None ''unexpected EOF'')), 2)
   \<and> returned_error (New (example_assets (None, Some (GoError None ''unexpected EOF'')))
         (example_config\<lparr>EnableStrongETag := True\<rparr>) (example_request ''/app.js'' [] 0))
       = Some \<lparr>StatusCode = 500, Message = ''unexpected EOF'', Category = ''elton-static-serve''\<rparr>
   \<and> returned_error
         (New (example_assets (None, Some (GoError
                 (Some \<lparr>StatusCode = 403, Message = ''forbidden'', Category = ''assets''\<rparr>)
                 ''forbidden'')))
         (example_config\<lparr>EnableStrongETag := True\<rparr>) (example_request ''/app.js'' [] 0))
       = Some \<lparr>StatusCode = 403, Message = ''forbidden'', Category = ''assets''\<rparr>
   \<and> \<not> invokes_next (New (example_assets (None, Some (GoError None ''unexpected EOF'')))
         (example_config\<lparr>EnableStrongETag := True\<rparr>) (example_request ''/app.js'' [] 0))"
proof -
  let ?x = "example_request ''/app.js'' [] (0::nat)"
  let ?c = "example_config\<lparr>EnableStrongETag := True\<rparr>"
  let ?e = "GoError None ''unexpected EOF''"
  let ?h = "\<lparr>StatusCode = 403, Message = ''forbidden'', Category = ''assets''\<rparr>"
  let ?f = "GoError (Some ?h) ''forbidden''"
  let ?file = "filepath_Join [Path ?c, request_file (ctx ?x)]"
  have c1: "\<not> skipper ?c (ctx ?x)"
    by code_simp
  have c2: "\<not> (DenyDot ?c \<and> has_dot_item (request_file (ctx ?x)))"
    by code_simp
  have c3: "strings_HasPrefix ?file (Path ?c)"
    by code_simp
  have c4: "\<not> (DenyQueryString ?c \<and> URL_RawQuery (ctx ?x) \<noteq> [])"
    by code_simp
  have c5: "\<not> DisableETag ?c" and c6: "EnableStrongETag ?c"
    by (simp_all add: example_config_def)
  have e7: "Exists (example_assets (None, Some ?e)) ?file (store ?x) = (True, 1)"
    by (simp add: example_assets_def example_request_def)
  have e8: "Get (example_assets (None, Some ?e)) ?file 1 = ((None, Some ?e), 2)"
    by (simp add: example_assets_def)
  have f7: "Exists (example_assets (None, Some ?f)) ?file (store ?x) = (True, 1)"
    by (simp add: example_assets_def example_request_def)
  have f8: "Get (example_assets (None, Some ?f)) ?file 1 = ((None, Some ?f), 2)"
    by (simp add: example_assets_def)
  from New_read_failure [OF c1 c2 c3 c4 c5 c6 e7 e8]
  have "returned_error (New (example_assets (None, Some ?e)) ?c ?x)
      = Some \<lparr>StatusCode = 500, Message = ''unexpected EOF'', Category = ''elton-static-serve''\<rparr>"
    and "\<not> invokes_next (New (example_assets (None, Some ?e)) ?c ?x)"
    by simp_all
  moreover from New_read_failure [OF c1 c2 c3 c4 c5 c6 f7 f8]
  have "returned_error (New (example_assets (None, Some ?f)) ?c ?x) = Some ?h"
    by simp
  ultimately show ?thesis
    using e7 e8 by simp
qed

text \<open>
  C10. With the empty string as root the guard against leaving the root lets every
  request through: every joined path starts with the empty string, so the handler
  goes from the dot check to the query check and on to the backend, and no branch
  returns \<open>OutOfPath\<close>; so also for a joined path that begins with \<open>..\<close>.
\<close>

theorem New_empty_root:
  assumes "Path config = []"
  shows "strings_HasPrefix (filepath_Join [Path config, p]) (Path config)
    \<and> New staticFile config x =
        (if skipper config (ctx x) then ReturnNext x
         else if DenyDot config \<and> has_dot_item (request_file (ctx x))
           then ReturnErr ErrNotAllowAccessDot x
         else if DenyQueryString config \<and> URL_RawQuery (ctx x) \<noteq> []
           then ReturnErr ErrNotAllowQueryString x
         else serve staticFile config (cacheControl config)
                (filepath_Join [Path config, request_file (ctx x)]) x)"
  using assms by (simp add: New_def Let_def)

theorem New_empty_root_witness:
  "Path (example_config\<lparr>Path := []\<rparr>) = []
   \<and> filepath_Join [Path (example_config\<lparr>Path := []\<rparr>), ''../../etc/passwd'']
       = ''../../etc/passwd''
   \<and> strings_HasPrefix
        (filepath_Join [Path (example_config\<lparr>Path := []\<rparr>), ''../../etc/passwd''])
        (Path (example_config\<lparr>Path := []\<rparr>))
   \<and> returned_error (New FS (example_config\<lparr>Path := []\<rparr>)
         (example_request ''../../etc/passwd'' [] example_fs)) = Some ErrNotFound
   \<and> calls (final (New FS (example_config\<lparr>Path := []\<rparr>)
         (example_request ''../../etc/passwd'' [] example_fs)))
       = [CallExists ''../../etc/passwd'']"
proof -
  let ?c = "example_config\<lparr>Path := []\<rparr>"
  let ?x = "example_request ''../../etc/passwd'' [] example_fs"
  have root: "Path ?c = []"
    by simp
  have joined: "filepath_Join [Path ?c, ''../../etc/passwd''] = ''../../etc/passwd''"
    by code_simp
  have passed: "\<not> skipper ?c (ctx ?x)"
    "\<not> (DenyDot ?c \<and> has_dot_item (request_file (ctx ?x)))"
    "\<not> (DenyQueryString ?c \<and> URL_RawQuery (ctx ?x) \<noteq> [])"
    by code_simp+
  have served: "returned_error (serve FS ?c (cacheControl ?c)
        (filepath_Join [Path ?c, request_file (ctx ?x)]) ?x) = Some ErrNotFound"
    "calls (final (serve FS ?c (cacheControl ?c)
        (filepath_Join [Path ?c, request_file (ctx ?x)]) ?x)) = [CallExists ''../../etc/passwd'']"
    by code_simp+
  have off: "\<not> DenyDot ?c" "\<not> DenyQueryString ?c"
    by (simp_all add: example_config_def)
  from New_empty_root [OF root, of "''../../etc/passwd''" FS ?x] passed off
  have "strings_HasPrefix (filepath_Join [Path ?c, ''../../etc/passwd'']) (Path ?c)"
    and "New FS ?c ?x = serve FS ?c (cacheControl ?c)
        (filepath_Join [Path ?c, request_file (ctx ?x)]) ?x"
    by simp_all
  then show ?thesis
    using root joined served by simp
qed

section \<open>Existence on the file system\<close>

text \<open>
  C8. \<open>FS.Exists\<close> returns false exactly when \<open>os.Stat\<close> fails with an error that
  \<open>os.IsNotExist\<close> recognises; it returns true when \<open>os.Stat\<close> succeeds and when it fails
  otherwise, with a permission error for one. It leaves the file system as it is.
\<close>

theorem FS_Exists_iff:
  "(fst (FS_Exists file fs) = False
      \<longleftrightarrow> (\<exists>e. snd (os_Stat fs file) = Some e \<and> err_kind e = NotExist))
   \<and> (\<forall>e. snd (os_Stat fs file) = Some e \<and> err_kind e = Permission
         \<longrightarrow> fst (FS_Exists file fs))
   \<and> (snd (os_Stat fs file) = None \<longrightarrow> fst (FS_Exists file fs))
   \<and> snd (FS_Exists file fs) = fs
   \<and> Exists FS = FS_Exists"
  by (auto simp: FS_Exists_def FS_def os_IsNotExist_def split: prod.splits option.splits)

theorem FS_Exists_iff_witness:
  "snd (os_Stat example_fs ''/var/www/missing'')
     = Some \<lparr>err_kind = NotExist, err_text = ''no such file or directory''\<rparr>
   \<and> fst (FS_Exists ''/var/www/missing'' example_fs) = False
   \<and> snd (os_Stat example_fs ''/var/www/private'')
     = Some \<lparr>err_kind = Permission, err_text = ''permission denied''\<rparr>
   \<and> fst (FS_Exists ''/var/www/private'' example_fs)
   \<and> snd (os_Stat example_fs ''/var/www/index.html'') = None
   \<and> fst (FS_Exists ''/var/www/index.html'' example_fs)"
proof -
  have missing: "snd (os_Stat example_fs ''/var/www/missing'')
      = Some \<lparr>err_kind = NotExist, err_text = ''no such file or directory''\<rparr>"
    and denied: "snd (os_Stat example_fs ''/var/www/private'')
      = Some \<lparr>err_kind = Permission, err_text = ''permission denied''\<rparr>"
    and index: "snd (os_Stat example_fs ''/var/www/index.html'') = None"
    by (simp_all add: example_fs_def)
  have "fst (FS_Exists ''/var/www/missing'' example_fs) = False"
    using FS_Exists_iff [of "''/var/www/missing''" example_fs, THEN conjunct1]
      missing
    by simp
  moreover have "fst (FS_Exists ''/var/www/private'' example_fs)"
    using FS_Exists_iff [of "''/var/www/private''" example_fs,
        THEN conjunct2, THEN conjunct1] denied
    by simp
  moreover have "fst (FS_Exists ''/var/www/index.html'' example_fs)"
    using FS_Exists_iff [of "''/var/www/index.html''" example_fs,
        THEN conjunct2, THEN conjunct2, THEN conjunct1] index
    by simp
  ultimately show ?thesis
    using missing denied index by simp
qed

section \<open>The headers of a response\<close>

lemma fold_SetHeader:
  "fold (\<lambda>(k, v). SetHeader k v) hs x = x\<lparr>ctx := (ctx x)\<lparr>Headers := Headers (ctx x) @ hs\<rparr>\<rparr>"
  by (induction hs arbitrary: x) (simp_all add: SetHeader_def split: prod.splits)

lemma set_config_headers_eq:
  "set_config_headers config x = x\<lparr>ctx := (ctx x)\<lparr>Headers := Headers (ctx x) @ Header config\<rparr>\<rparr>"
  by (simp add: set_config_headers_def fold_SetHeader)

lemma index_html_checks:
  "\<not> has_dot_item ''/index.html''"
  "filepath_Join [''/var/www'', ''/index.html''] = ''/var/www/index.html''"
  "strings_HasPrefix ''/var/www/index.html'' ''/var/www''"
  by code_simp+

lemma weak_etag_values:
  "fmt_hex 120 = ''78''"
  "fmt_hex 1700000000 = ''6553f100''"
  "http_date 1700000000 = ''Tue, 14 Nov 2023 22:13:20 GMT''"
  by code_simp+

text \<open>
  C2, as amended. Root \<open>/var/www\<close>, a request (not skipped, not refused for its query)
  for \<open>/index.html\<close>, weak ETag and Last-Modified both on, the file exists and \<open>Stat\<close>
  returns size 120 and modification time 1700000000 both times it is asked. Then the
  handler sets ETag to \<open>W/"78-6553f100"\<close> (120 is \<open>78\<close> and 1700000000 is \<open>6553f100\<close> in
  hexadecimal) and Last-Modified to \<open>Tue, 14 Nov 2023 22:13:20 GMT\<close>, which is the
  time in the layout of RFC 1123 with GMT; the configured headers and the cache-control
  header follow, so these two values stand unless a configured header has the same name.
\<close>

theorem New_weak_etag:
  assumes "Path config = ''/var/www''"
    and "request_file (ctx x) = ''/index.html''"
    and "\<not> skipper config (ctx x)"
    and "\<not> (DenyQueryString config \<and> URL_RawQuery (ctx x) \<noteq> [])"
    and "\<not> DisableETag config" and "\<not> EnableStrongETag config"
    and "\<not> DisableLastModified config"
    and "Exists staticFile ''/var/www/index.html'' (store x) = (True, s1)"
    and "Stat staticFile ''/var/www/index.html'' s1 = (Some \<lparr>Size = 120, ModTime = 1700000000\<rparr>, s2)"
    and "Stat staticFile ''/var/www/index.html'' s2 = (Some \<lparr>Size = 120, ModTime = 1700000000\<rparr>, s3)"
  shows \<open>Headers (ctx (final (New staticFile config x))) =
           Headers (ctx x)
           @ [(''ETag'', ''W/"78-6553f100"''),
              (''Last-Modified'', ''Tue, 14 Nov 2023 22:13:20 GMT'')]
           @ Header config
           @ (if cacheControl config = [] then [] else [(''Cache-Control'', cacheControl config)])
         \<and> http_date 1700000000 = ''Tue, 14 Nov 2023 22:13:20 GMT''
         \<and> (''ETag'' \<notin> fst ` set (Header config) \<longrightarrow>
              map_of (rev (Headers (ctx (final (New staticFile config x))))) ''ETag''
                = Some ''W/"78-6553f100"'')
         \<and> (''Last-Modified'' \<notin> fst ` set (Header config) \<longrightarrow>
              map_of (rev (Headers (ctx (final (New staticFile config x))))) ''Last-Modified''
                = Some ''Tue, 14 Nov 2023 22:13:20 GMT'')\<close>
proof -
  have served: "New staticFile config x =
      serve staticFile config (cacheControl config) ''/var/www/index.html'' x"
    using assms(1-4) by (simp add: New_serve index_html_checks)
  have headers: \<open>Headers (ctx (final (New staticFile config x))) =
      Headers (ctx x)
      @ [(''ETag'', ''W/"78-6553f100"''), (''Last-Modified'', ''Tue, 14 Nov 2023 22:13:20 GMT'')]
      @ Header config
      @ (if cacheControl config = [] then [] else [(''Cache-Control'', cacheControl config)])\<close>
    using assms(5-10)
    by (simp add: served serve_def call_Exists_def read_content_def SetContentTypeByExt_def
        set_etag_def set_last_modified_def call_Stat_def SetHeader_def set_config_headers_eq
        set_cache_control_def set_body_def call_NewReader_def final_def weak_etag_values
        HeaderETag_def HeaderLastModified_def HeaderCacheControl_def
        split: prod.splits option.splits)
  have absent: "map_of (rev hs) k = None" if "k \<notin> fst ` set hs" for hs :: "(string \<times> string) list" and k
    using that by (simp add: map_of_eq_None_iff)
  have etag: \<open>map_of (rev (Headers (ctx (final (New staticFile config x))))) ''ETag''
      = Some ''W/"78-6553f100"''\<close> if "''ETag'' \<notin> fst ` set (Header config)"
    using that by (simp add: headers absent map_add_def)
  have modified: \<open>map_of (rev (Headers (ctx (final (New staticFile config x))))) ''Last-Modified''
      = Some ''Tue, 14 Nov 2023 22:13:20 GMT''\<close> if "''Last-Modified'' \<notin> fst ` set (Header config)"
    using that by (simp add: headers absent map_add_def)
  show ?thesis
    using headers etag modified by (simp only: weak_etag_values) blast
qed

text \<open>
  The claim as it was stated names the ETag \<open>W/"78-652299680"\<close>. In its scenario, served
  from the example file system, the ETag of the response is \<open>W/"78-6553f100"\<close>.
\<close>

theorem New_weak_etag_counterexample:
  \<open>Path example_config = ''/var/www''
   \<and> \<not> EnableStrongETag example_config \<and> \<not> DisableETag example_config
   \<and> \<not> DisableLastModified example_config
   \<and> request_file (ctx (example_request ''/index.html'' [] example_fs)) = ''/index.html''
   \<and> Exists FS ''/var/www/index.html'' example_fs = (True, example_fs)
   \<and> Stat FS ''/var/www/index.html'' example_fs
       = (Some \<lparr>Size = 120, ModTime = 1700000000\<rparr>, example_fs)
   \<and> map_of (rev (Headers (ctx (final
         (New FS example_config (example_request ''/index.html'' [] example_fs)))))) ''ETag''
       = Some ''W/"78-6553f100"''
   \<and> map_of (rev (Headers (ctx (final
         (New FS example_config (example_request ''/index.html'' [] example_fs)))))) ''ETag''
       \<noteq> Some ''W/"78-652299680"''\<close>
proof -
  have "Exists FS ''/var/www/index.html'' example_fs = (True, example_fs)"
    and "Stat FS ''/var/www/index.html'' example_fs
       = (Some \<lparr>Size = 120, ModTime = 1700000000\<rparr>, example_fs)"
    by (simp_all add: FS_def FS_Exists_def FS_Stat_def example_fs_def os_IsNotExist_def)
  moreover have \<open>Path example_config = ''/var/www''
   \<and> \<not> EnableStrongETag example_config \<and> \<not> DisableETag example_config
   \<and> \<not> DisableLastModified example_config
   \<and> request_file (ctx (example_request ''/index.html'' [] example_fs)) = ''/index.html''
   \<and> map_of (rev (Headers (ctx (final
         (New FS example_config (example_request ''/index.html'' [] example_fs)))))) ''ETag''
       = Some ''W/"78-6553f100"''
   \<and> map_of (rev (Headers (ctx (final
         (New FS example_config (example_request ''/index.html'' [] example_fs)))))) ''ETag''
       \<noteq> Some ''W/"78-652299680"''\<close>
    by code_simp
  ultimately show ?thesis
    by simp
qed

theorem New_weak_etag_witness:
  \<open>Path example_config = ''/var/www''
   \<and> request_file (ctx (example_request ''/index.html'' [] example_fs)) = ''/index.html''
   \<and> Exists FS ''/var/www/index.html'' (store (example_request ''/index.html'' [] example_fs))
       = (True, example_fs)
   \<and> Stat FS ''/var/www/index.html'' example_fs
       = (Some \<lparr>Size = 120, ModTime = 1700000000\<rparr>, example_fs)
   \<and> Headers (ctx (final (New FS example_config (example_request ''/index.html'' [] example_fs))))
       = [(''ETag'', ''W/"78-6553f100"''),
          (''Last-Modified'', ''Tue, 14 Nov 2023 22:13:20 GMT''),
          (''Cache-Control'', ''public, max-age=31536000, s-maxage=3600'')]\<close>
proof -
  let ?x = "example_request ''/index.html'' [] example_fs"
  have a1: "Path example_config = ''/var/www''"
    by (simp add: example_config_def)
  have a2: "request_file (ctx ?x) = ''/index.html''"
    by code_simp
  have a3: "\<not> skipper example_config (ctx ?x)"
    by code_simp
  have a4: "\<not> (DenyQueryString example_config \<and> URL_RawQuery (ctx ?x) \<noteq> [])"
    by code_simp
  have a5: "\<not> DisableETag example_config" and a6: "\<not> EnableStrongETag example_config"
    and a7: "\<not> DisableLastModified example_config"
    by (simp_all add: example_config_def)
  have a8: "Exists FS ''/var/www/index.html'' (store ?x) = (True, example_fs)"
    by (simp add: FS_def FS_Exists_def example_fs_def os_IsNotExist_def example_request_def)
  have a9: "Stat FS ''/var/www/index.html'' example_fs
      = (Some \<lparr>Size = 120, ModTime = 1700000000\<rparr>, example_fs)"
    by (simp add: FS_def FS_Stat_def example_fs_def)
  have none: "Headers (ctx ?x) = []" "Header example_config = []"
    by (simp_all add: example_request_def example_config_def)
  have cc: "cacheControl example_config = ''public, max-age=31536000, s-maxage=3600''"
    by code_simp
  from New_weak_etag [OF a1 a2 a3 a4 a5 a6 a7 a8 a9 a9]
  have \<open>Headers (ctx (final (New FS example_config ?x))) =
      Headers (ctx ?x)
      @ [(''ETag'', ''W/"78-6553f100"''), (''Last-Modified'', ''Tue, 14 Nov 2023 22:13:20 GMT'')]
      @ Header example_config
      @ (if cacheControl example_config = [] then []
         else [(''Cache-Control'', cacheControl example_config)])\<close>
    by (rule conjunct1)
  then show ?thesis
    using a1 a2 a8 a9 by (simp add: none cc)
qed

lemma read_content_ctx:
  "read_content staticFile config file x = Inr (buf, x2) \<Longrightarrow> ctx x2 = ctx x"
  by (auto simp: read_content_def call_Get_def split: if_splits prod.splits option.splits)

lemma set_etag_Headers:
  "\<exists>E. Headers (ctx (set_etag staticFile config file buf x)) = Headers (ctx x) @ E
     \<and> fst ` set E \<subseteq> {HeaderETag}"
  by (auto simp: set_etag_def call_Stat_def SetHeader_def split: prod.splits option.splits)

lemma set_last_modified_Headers:
  "\<exists>L. Headers (ctx (set_last_modified staticFile config file x)) = Headers (ctx x) @ L
     \<and> fst ` set L \<subseteq> {HeaderLastModified}"
  by (auto simp: set_last_modified_def call_Stat_def SetHeader_def
      split: prod.splits option.splits)

lemma set_cache_control_Headers:
  "Headers (ctx (set_cache_control cc x)) =
     Headers (ctx x) @ (if cc = [] then [] else [(HeaderCacheControl, cc)])"
  by (simp add: set_cache_control_def SetHeader_def)

lemma set_body_Headers:
  "Headers (ctx (final (set_body staticFile file buf x))) = Headers (ctx x)"
  by (simp add: set_body_def call_NewReader_def final_def split: prod.splits option.splits)

lemma serve_Headers:
  assumes "fst (Exists staticFile file (store x))"
    and "serve staticFile config cc file x = ReturnNext x'"
  shows "\<exists>E L. Headers (ctx x') =
           Headers (ctx x) @ E @ L @ Header config
             @ (if cc = [] then [] else [(HeaderCacheControl, cc)])
         \<and> fst ` set E \<subseteq> {HeaderETag} \<and> fst ` set L \<subseteq> {HeaderLastModified}"
proof -
  define x1 where "x1 = SetContentTypeByExt file (snd (call_Exists staticFile file x))"
  have x1: "Headers (ctx x1) = Headers (ctx x)"
    by (simp add: x1_def SetContentTypeByExt_def call_Exists_def split: prod.splits)
  from assms obtain buf x2 where
    content: "read_content staticFile config file x1 = Inr (buf, x2)" and
    body: "set_body staticFile file buf
        (set_cache_control cc (set_config_headers config
          (set_last_modified staticFile config file
            (set_etag staticFile config file buf x2)))) = ReturnNext x'"
    by (auto simp: serve_def x1_def call_Exists_def split: prod.splits sum.splits)
  obtain E where E: "Headers (ctx (set_etag staticFile config file buf x2)) = Headers (ctx x2) @ E"
      "fst ` set E \<subseteq> {HeaderETag}"
    using set_etag_Headers by blast
  obtain L where L: "Headers (ctx (set_last_modified staticFile config file
        (set_etag staticFile config file buf x2))) =
        Headers (ctx (set_etag staticFile config file buf x2)) @ L"
      "fst ` set L \<subseteq> {HeaderLastModified}"
    using set_last_modified_Headers by blast
  have "Headers (ctx x') = Headers (ctx (final (set_body staticFile file buf
        (set_cache_control cc (set_config_headers config
          (set_last_modified staticFile config file
            (set_etag staticFile config file buf x2)))))))"
    by (simp add: body final_def)
  also have "\<dots> = Headers (ctx (set_cache_control cc (set_config_headers config
          (set_last_modified staticFile config file
            (set_etag staticFile config file buf x2)))))"
    by (rule set_body_Headers)
  also have "\<dots> = Headers (ctx x) @ E @ L @ Header config
      @ (if cc = [] then [] else [(HeaderCacheControl, cc)])"
    using read_content_ctx [OF content]
    by (simp add: set_cache_control_Headers set_config_headers_eq E(1) L(1) x1)
  finally show ?thesis
    using E(2) L(2) by blast
qed

lemma cacheControl_cases:
  "cacheControl config =
     (if MaxAge config > 0 \<and> SMaxAge config > 0 then
        ''public, max-age='' @ strconv_Itoa (MaxAge config)
          @ '', s-maxage='' @ strconv_Itoa (SMaxAge config)
      else if MaxAge config > 0 then ''public, max-age='' @ strconv_Itoa (MaxAge config)
      else if SMaxAge config > 0 then ''public, s-maxage='' @ strconv_Itoa (SMaxAge config)
      else [])"
  by (simp add: cacheControl_def)

lemma Itoa_values:
  "strconv_Itoa 31536000 = ''31536000''" "strconv_Itoa 3600 = ''3600''"
  by code_simp+

text \<open>
  C3. The cache-control value computed by \<open>New\<close> is \<open>public\<close>, then \<open>max-age=\<close> and the
  seconds when \<open>MaxAge\<close> is positive, then \<open>s-maxage=\<close> and the seconds when \<open>SMaxAge\<close> is
  positive, joined with a comma and a space, and the empty string when neither is
  positive; it is never \<open>public\<close> alone. For one year and one hour it is
  \<open>public, max-age=31536000, s-maxage=3600\<close>. When the handler has served a file and
  returns \<open>c.Next()\<close>, the headers it has set are at most an ETag, at most a
  Last-Modified, the configured headers, and then Cache-Control with this value when a
  duration is positive, and nothing more when none is.
\<close>

theorem cacheControl_header:
  "cacheControl config =
     (if MaxAge config > 0 \<and> SMaxAge config > 0 then
        ''public, max-age='' @ strconv_Itoa (MaxAge config)
          @ '', s-maxage='' @ strconv_Itoa (SMaxAge config)
      else if MaxAge config > 0 then ''public, max-age='' @ strconv_Itoa (MaxAge config)
      else if SMaxAge config > 0 then ''public, s-maxage='' @ strconv_Itoa (SMaxAge config)
      else [])
   \<and> cacheControl config \<noteq> ''public''
   \<and> (cacheControl config = [] \<longleftrightarrow> \<not> (MaxAge config > 0 \<or> SMaxAge config > 0))
   \<and> (MaxAge config = 31536000 \<and> SMaxAge config = 3600 \<longrightarrow>
        cacheControl config = ''public, max-age=31536000, s-maxage=3600'')
   \<and> (\<not> skipper config (ctx x)
        \<and> fst (Exists staticFile (filepath_Join [Path config, request_file (ctx x)]) (store x))
        \<and> New staticFile config x = ReturnNext x' \<longrightarrow>
        (\<exists>E L. Headers (ctx x') =
             Headers (ctx x) @ E @ L @ Header config
               @ (if MaxAge config > 0 \<or> SMaxAge config > 0
                  then [(''Cache-Control'', cacheControl config)] else [])
           \<and> fst ` set E \<subseteq> {''ETag''} \<and> fst ` set L \<subseteq> {''Last-Modified''}))"
proof -
  have empty: "cacheControl config = [] \<longleftrightarrow> \<not> (MaxAge config > 0 \<or> SMaxAge config > 0)"
    by (simp add: cacheControl_cases)
  have not_public: "cacheControl config \<noteq> ''public''"
    by (simp add: cacheControl_cases)
  have year: "cacheControl config = ''public, max-age=31536000, s-maxage=3600''"
    if "MaxAge config = 31536000 \<and> SMaxAge config = 3600"
    using that by (simp add: cacheControl_cases Itoa_values)
  have sent: "\<exists>E L. Headers (ctx x') =
        Headers (ctx x) @ E @ L @ Header config
          @ (if MaxAge config > 0 \<or> SMaxAge config > 0
             then [(''Cache-Control'', cacheControl config)] else [])
      \<and> fst ` set E \<subseteq> {''ETag''} \<and> fst ` set L \<subseteq> {''Last-Modified''}"
    if skip: "\<not> skipper config (ctx x)"
      and found: "fst (Exists staticFile (filepath_Join [Path config, request_file (ctx x)]) (store x))"
      and continued: "New staticFile config x = ReturnNext x'"
  proof -
    from skip continued have "serve staticFile config (cacheControl config)
        (filepath_Join [Path config, request_file (ctx x)]) x = ReturnNext x'"
      by (simp add: New_def Let_def split: if_splits)
    from serve_Headers [OF found this] show ?thesis
      unfolding HeaderETag_def HeaderLastModified_def HeaderCacheControl_def
      by (cases "MaxAge config > 0 \<or> SMaxAge config > 0") (simp_all add: empty)
  qed
  show ?thesis
    using cacheControl_cases [of config] empty not_public year sent by blast
qed

lemma invokes_next_final: "invokes_next r \<Longrightarrow> r = ReturnNext (final r)"
  by (cases r) (simp_all add: invokes_next_def final_def)

theorem cacheControl_header_witness:
  "MaxAge example_config = 31536000 \<and> SMaxAge example_config = 3600
   \<and> cacheControl example_config = ''public, max-age=31536000, s-maxage=3600''
   \<and> cacheControl example_config \<noteq> ''public''
   \<and> \<not> skipper example_config (ctx (example_request ''/index.html'' [] example_fs))
   \<and> fst (Exists FS
        (filepath_Join [Path example_config,
           request_file (ctx (example_request ''/index.html'' [] example_fs))])
        (store (example_request ''/index.html'' [] example_fs)))
   \<and> New FS example_config (example_request ''/index.html'' [] example_fs)
       = ReturnNext (final (New FS example_config (example_request ''/index.html'' [] example_fs)))
   \<and> last (Headers (ctx (final
         (New FS example_config (example_request ''/index.html'' [] example_fs)))))
       = (''Cache-Control'', ''public, max-age=31536000, s-maxage=3600'')"
proof -
  let ?x = "example_request ''/index.html'' [] example_fs"
  let ?r = "New FS example_config ?x"
  have ages: "MaxAge example_config = 31536000 \<and> SMaxAge example_config = 3600"
    by (simp add: example_config_def)
  have skip: "\<not> skipper example_config (ctx ?x)"
    by code_simp
  have found: "fst (Exists FS (filepath_Join [Path example_config, request_file (ctx ?x)])
      (store ?x))"
    by code_simp
  have "invokes_next ?r"
    by code_simp
  then have continued: "?r = ReturnNext (final ?r)"
    by (rule invokes_next_final)
  note all = cacheControl_header [of example_config ?x FS "final ?r"]
  from all ages have cc: "cacheControl example_config = ''public, max-age=31536000, s-maxage=3600''"
    by blast
  from all have "cacheControl example_config \<noteq> ''public''"
    by blast
  moreover from all skip found continued ages
  obtain E L where "Headers (ctx (final ?r)) =
      Headers (ctx ?x) @ E @ L @ Header example_config
        @ [(''Cache-Control'', cacheControl example_config)]"
    by auto
  then have "last (Headers (ctx (final ?r)))
      = (''Cache-Control'', ''public, max-age=31536000, s-maxage=3600'')"
    by (simp add: cc)
  ultimately show ?thesis
    using ages cc skip found continued by blast
qed

lemma set_last_modified_run:
  "store (set_last_modified staticFile config file x) =
     (if DisableLastModified config then store x else snd (Stat staticFile file (store x)))"
  "calls (set_last_modified staticFile config file x) =
     calls x @ (if DisableLastModified config then [] else [CallStat file])"
  "BodyBuffer (ctx (set_last_modified staticFile config file x)) = BodyBuffer (ctx x)"
  "Body (ctx (set_last_modified staticFile config file x)) = Body (ctx x)"
  by (simp_all add: set_last_modified_def call_Stat_def SetHeader_def
      split: prod.splits option.splits)

lemma set_headers_run:
  "store (set_cache_control cc (set_config_headers config x)) = store x"
  "calls (set_cache_control cc (set_config_headers config x)) = calls x"
  "BodyBuffer (ctx (set_cache_control cc (set_config_headers config x))) = BodyBuffer (ctx x)"
  "Body (ctx (set_cache_control cc (set_config_headers config x))) = Body (ctx x)"
  by (simp_all add: set_cache_control_def set_config_headers_eq SetHeader_def)

lemma set_headers_keeps:
  "set (Headers (ctx x)) \<subseteq> set (Headers (ctx (set_cache_control cc (set_config_headers config x))))"
  by (auto simp: set_cache_control_def set_config_headers_eq SetHeader_def)

lemma set_last_modified_keeps:
  "set (Headers (ctx x)) \<subseteq> set (Headers (ctx (set_last_modified staticFile config file x)))"
  using set_last_modified_Headers [of staticFile config "file" x] by auto

text \<open>
  C9. In strong-ETag mode the file exists and \<open>Get\<close> returns no error and the slice
  \<open>buf\<close>. The ETag is set from \<open>buf\<close> also when \<open>buf\<close> is \<open>nil\<close>, and is then the ETag
  of no bytes. The body is taken from \<open>buf\<close> only when \<open>buf\<close> is not \<open>nil\<close>: then
  \<open>BodyBuffer\<close> holds its bytes and \<open>NewReader\<close> is not called. When \<open>buf\<close> is \<open>nil\<close>,
  \<open>BodyBuffer\<close> is left alone, \<open>NewReader\<close> is called, and \<open>Body\<close> is the reader it
  returns, or the handler fails with status 400 when it returns an error.
\<close>

theorem New_strong_etag_body:
  assumes "\<not> skipper config (ctx x)"
    and "\<not> (DenyDot config \<and> has_dot_item (request_file (ctx x)))"
    and "strings_HasPrefix (filepath_Join [Path config, request_file (ctx x)]) (Path config)"
    and "\<not> (DenyQueryString config \<and> URL_RawQuery (ctx x) \<noteq> [])"
    and "\<not> DisableETag config" and "EnableStrongETag config"
    and "path = filepath_Join [Path config, request_file (ctx x)]"
    and "Exists staticFile path (store x) = (True, s1)"
    and "Get staticFile path s1 = ((buf, None), s2)"
    and "s3 = (if DisableLastModified config then s2 else snd (Stat staticFile path s2))"
  shows \<open>(''ETag'', generateETag buf) \<in> set (Headers (ctx (final (New staticFile config x))))
    \<and> (buf = None \<longrightarrow> generateETag buf = ''"0-2jmj7l5rSw0yVb_vlWAYkK_YBwk="'')
    \<and> BodyBuffer (ctx (final (New staticFile config x))) =
        (case buf of None \<Rightarrow> BodyBuffer (ctx x) | Some bs \<Rightarrow> Some bs)
    \<and> calls (final (New staticFile config x)) =
        calls x @ [CallExists path, CallGet path]
          @ (if DisableLastModified config then [] else [CallStat path])
          @ (if buf = None then [CallNewReader path] else [])
    \<and> (buf \<noteq> None \<longrightarrow> invokes_next (New staticFile config x)
          \<and> Body (ctx (final (New staticFile config x))) = Body (ctx x))
    \<and> (buf = None \<longrightarrow>
          (case NewReader staticFile path s3 of
             ((r, None), _) \<Rightarrow>
               invokes_next (New staticFile config x)
               \<and> Body (ctx (final (New staticFile config x))) = Some r
           | ((_, Some e), _) \<Rightarrow>
               returned_error (New staticFile config x)
                 = Some (getStaticServeError (error_text e) 400)
               \<and> Body (ctx (final (New staticFile config x))) = Body (ctx x)))\<close>
proof -
  define x2 where "x2 = SetHeader HeaderETag (generateETag buf)
    ((SetContentTypeByExt path (x\<lparr>store := s1, calls := calls x @ [CallExists path]\<rparr>))
       \<lparr>store := s2, calls := calls x @ [CallExists path, CallGet path]\<rparr>)"
  define y where "y = set_cache_control (cacheControl config) (set_config_headers config
    (set_last_modified staticFile config path x2))"
  have served: "New staticFile config x = serve staticFile config (cacheControl config) path x"
    using assms(1-4,7) by (simp add: New_serve)
  have run: "New staticFile config x = set_body staticFile path buf y"
    using assms(5,6,8,9)
    by (simp add: served serve_def call_Exists_def read_content_def call_Get_def
        SetContentTypeByExt_def set_etag_def y_def x2_def)
  have x2: "store x2 = s2" "calls x2 = calls x @ [CallExists path, CallGet path]"
    "BodyBuffer (ctx x2) = BodyBuffer (ctx x)" "Body (ctx x2) = Body (ctx x)"
    "(''ETag'', generateETag buf) \<in> set (Headers (ctx x2))"
    by (simp_all add: x2_def SetHeader_def SetContentTypeByExt_def HeaderETag_def)
  have y: "store y = s3"
    "calls y = calls x @ [CallExists path, CallGet path]
       @ (if DisableLastModified config then [] else [CallStat path])"
    "BodyBuffer (ctx y) = BodyBuffer (ctx x)" "Body (ctx y) = Body (ctx x)"
    using assms(10) by (simp_all add: y_def set_headers_run set_last_modified_run x2)
  have etag: "(''ETag'', generateETag buf) \<in> set (Headers (ctx y))"
    using x2(5) set_last_modified_keeps [of x2 staticFile config path]
      set_headers_keeps [of "set_last_modified staticFile config path x2" "cacheControl config" config]
    unfolding y_def by blast
  have nil: \<open>buf = None \<longrightarrow> generateETag buf = ''"0-2jmj7l5rSw0yVb_vlWAYkK_YBwk="''\<close>
    by (simp add: generateETag_def len_def)
  have body: \<open>(''ETag'', generateETag buf) \<in> set (Headers (ctx (final (set_body staticFile path buf y))))
    \<and> (buf = None \<longrightarrow> generateETag buf = ''"0-2jmj7l5rSw0yVb_vlWAYkK_YBwk="'')
    \<and> BodyBuffer (ctx (final (set_body staticFile path buf y))) =
        (case buf of None \<Rightarrow> BodyBuffer (ctx x) | Some bs \<Rightarrow> Some bs)
    \<and> calls (final (set_body staticFile path buf y)) =
        calls x @ [CallExists path, CallGet path]
          @ (if DisableLastModified config then [] else [CallStat path])
          @ (if buf = None then [CallNewReader path] else [])
    \<and> (buf \<noteq> None \<longrightarrow> invokes_next (set_body staticFile path buf y)
          \<and> Body (ctx (final (set_body staticFile path buf y))) = Body (ctx x))
    \<and> (buf = None \<longrightarrow>
          (case NewReader staticFile path s3 of
             ((r, None), _) \<Rightarrow>
               invokes_next (set_body staticFile path buf y)
               \<and> Body (ctx (final (set_body staticFile path buf y))) = Some r
           | ((_, Some e), _) \<Rightarrow>
               returned_error (set_body staticFile path buf y)
                 = Some (getStaticServeError (error_text e) 400)
               \<and> Body (ctx (final (set_body staticFile path buf y))) = Body (ctx x)))\<close>
    using etag nil
    by (simp add: set_body_Headers)
      (simp add: set_body_def call_NewReader_def final_def invokes_next_def returned_error_def y
        split: prod.splits option.splits)
  show ?thesis
    unfolding run by (rule body)
qed

theorem New_strong_etag_body_witness:
  \<open>Exists (example_assets (None, None)) ''/var/www/app.js''
      (store (example_request ''/app.js'' [] (0::nat))) = (True, 1)
   \<and> Get (example_assets (None, None)) ''/var/www/app.js'' 1 = ((None, None), 2)
   \<and> (''ETag'', ''"0-2jmj7l5rSw0yVb_vlWAYkK_YBwk="'')
       \<in> set (Headers (ctx (final (New (example_assets (None, None))
             (example_config\<lparr>EnableStrongETag := True\<rparr>) (example_request ''/app.js'' [] 0)))))
   \<and> BodyBuffer (ctx (final (New (example_assets (None, None))
         (example_config\<lparr>EnableStrongETag := True\<rparr>) (example_request ''/app.js'' [] 0)))) = None
   \<and> Body (ctx (final (New (example_assets (None, None))
         (example_config\<lparr>EnableStrongETag := True\<rparr>) (example_request ''/app.js'' [] 0))))
       = Some (Some ''asset'')
   \<and> calls (final (New (example_assets (None, None))
         (example_config\<lparr>EnableStrongETag := True\<rparr>) (example_request ''/app.js'' [] 0)))
       = [CallExists ''/var/www/app.js'', CallGet ''/var/www/app.js'',
          CallStat ''/var/www/app.js'', CallNewReader ''/var/www/app.js'']
   \<and> Get (example_assets (Some ''abc'', None)) ''/var/www/app.js'' 1 = ((Some ''abc'', None), 2)
   \<and> BodyBuffer (ctx (final (New (example_assets (Some ''abc'', None))
         (example_config\<lparr>EnableStrongETag := True\<rparr>) (example_request ''/app.js'' [] 0))))
       = Some ''abc''
   \<and> calls (final (New (example_assets (Some ''abc'', None))
         (example_config\<lparr>EnableStrongETag := True\<rparr>) (example_request ''/app.js'' [] 0)))
       = [CallExists ''/var/www/app.js'', CallGet ''/var/www/app.js'',
          CallStat ''/var/www/app.js'']\<close>
proof -
  let ?x = "example_request ''/app.js'' [] (0::nat)"
  let ?c = "example_config\<lparr>EnableStrongETag := True\<rparr>"
  let ?nil = "example_assets (None, None)"
  let ?abc = "example_assets (Some ''abc'', None)"
  have c1: "\<not> skipper ?c (ctx ?x)"
    by code_simp
  have c2: "\<not> (DenyDot ?c \<and> has_dot_item (request_file (ctx ?x)))"
    by code_simp
  have c3: "strings_HasPrefix (filepath_Join [Path ?c, request_file (ctx ?x)]) (Path ?c)"
    by code_simp
  have c4: "\<not> (DenyQueryString ?c \<and> URL_RawQuery (ctx ?x) \<noteq> [])"
    by code_simp
  have c5: "\<not> DisableETag ?c" and c6: "EnableStrongETag ?c"
    and lm: "\<not> DisableLastModified ?c"
    by (simp_all add: example_config_def)
  have c7: "''/var/www/app.js'' = filepath_Join [Path ?c, request_file (ctx ?x)]"
    by code_simp
  have start: "store ?x = 0" "calls ?x = []" "BodyBuffer (ctx ?x) = None"
    by (simp_all add: example_request_def)
  have n8: "Exists ?nil ''/var/www/app.js'' (store ?x) = (True, 1)"
    and n9: "Get ?nil ''/var/www/app.js'' 1 = ((None, None), 2)"
    and n10: "3 = (if DisableLastModified ?c then 2 else snd (Stat ?nil ''/var/www/app.js'' 2))"
    and reader: "NewReader ?nil ''/var/www/app.js'' 3 = ((Some ''asset'', None), 4)"
    by (simp_all add: example_assets_def example_request_def example_config_def)
  have a8: "Exists ?abc ''/var/www/app.js'' (store ?x) = (True, 1)"
    and a9: "Get ?abc ''/var/www/app.js'' 1 = ((Some ''abc'', None), 2)"
    and a10: "3 = (if DisableLastModified ?c then 2 else snd (Stat ?abc ''/var/www/app.js'' 2))"
    by (simp_all add: example_assets_def example_request_def example_config_def)
  have nil_etag: \<open>generateETag None = ''"0-2jmj7l5rSw0yVb_vlWAYkK_YBwk="''\<close>
    by (simp add: generateETag_def len_def)
  from New_strong_etag_body [OF c1 c2 c3 c4 c5 c6 c7 n8 n9 n10] reader lm start
  have \<open>(''ETag'', ''"0-2jmj7l5rSw0yVb_vlWAYkK_YBwk="'')
        \<in> set (Headers (ctx (final (New ?nil ?c ?x))))
      \<and> BodyBuffer (ctx (final (New ?nil ?c ?x))) = None
      \<and> Body (ctx (final (New ?nil ?c ?x))) = Some (Some ''asset'')
      \<and> calls (final (New ?nil ?c ?x))
          = [CallExists ''/var/www/app.js'', CallGet ''/var/www/app.js'',
             CallStat ''/var/www/app.js'', CallNewReader ''/var/www/app.js'']\<close>
    by (simp add: nil_etag)
  moreover from New_strong_etag_body [OF c1 c2 c3 c4 c5 c6 c7 a8 a9 a10] lm start
  have "BodyBuffer (ctx (final (New ?abc ?c ?x))) = Some ''abc''
      \<and> calls (final (New ?abc ?c ?x))
          = [CallExists ''/var/www/app.js'', CallGet ''/var/www/app.js'',
             CallStat ''/var/www/app.js'']"
    by simp
  ultimately show ?thesis
    using n8 n9 a9 by simp
qed

end
